theory Spec2Isabelle
  imports Complex_Main
begin

section \<open>Numbers and strings of the host language\<close>

text \<open>
  A JavaScript \<open>number\<close> is modelled as an exact \<^typ>\<open>real\<close>: sums, products and
  quotients are the mathematical ones, without the rounding of IEEE doubles, so a
  comparison that falls exactly on its bound may come out differently in the program.
  \<open>Math.round\<close> rounds to the nearest integer, halves upwards.
\<close>

definition Math_round :: "real \<Rightarrow> int" where
  "Math_round x = \<lfloor>x + 1 / 2\<rfloor>"

text \<open>Decimal rendering of an integer inside a template string.\<close>

fun showNat :: "nat \<Rightarrow> string" where
  "showNat n =
     (if n < 10 then [''0123456789'' ! n]
      else showNat (n div 10) @ [''0123456789'' ! (n mod 10)])"

declare showNat.simps [simp del]

definition showInt :: "int \<Rightarrow> string" where
  "showInt i = (if i < 0 then ''-'' @ showNat (nat (- i)) else showNat (nat i))"

text \<open>A string is truthy unless it is empty; an absent value is falsy.\<close>

fun truthy :: "string option \<Rightarrow> bool" where
  "truthy None = False"
| "truthy (Some s) = (s \<noteq> [])"

section \<open>types.ts\<close>

datatype CropStatus = HEALTHY | STRESSED | DISEASED | CRITICAL

datatype StressSensitivity = Low | Standard | High | Aggressive

record UserSettings =
  stressSensitivity :: StressSensitivity
  stressThreshold :: real
  insuranceThreshold :: real
  autoSync :: bool

record DetailedMetrics =
  leafCoverage :: real
  spreadVelocity :: string
  climateRiskFactor :: real

section \<open>The knowledge base of the local inference model\<close>

record LocalVisualFeatures =
  greenness :: real
  variance :: real
  necroticDensity :: real
  redness :: real
  edgeDensity :: real
  zonalIntegrity :: real

datatype FeatureKey =
  Greenness | Variance | NecroticDensity | Redness | EdgeDensity | ZonalIntegrity

text \<open>\<open>visual[key]\<close>: the field of the feature vector that a weight names.\<close>

fun feature :: "LocalVisualFeatures \<Rightarrow> FeatureKey \<Rightarrow> real" where
  "feature v Greenness = greenness v"
| "feature v Variance = variance v"
| "feature v NecroticDensity = necroticDensity v"
| "feature v Redness = redness v"
| "feature v EdgeDensity = edgeDensity v"
| "feature v ZonalIntegrity = zonalIntegrity v"

text \<open>
  \<open>weights\<close> is a partial feature record; \<open>Object.entries\<close> walks it in the order
  in which the keys are written, so it is an association list.
\<close>

record DiseaseProfile =
  name :: string
  weights :: "(FeatureKey \<times> real) list"
  description :: string
  recommendations :: "string list"
  baseLossModifier :: real

definition LeafRust :: DiseaseProfile where
  "LeafRust = \<lparr>
     name = ''Leaf Rust (Puccinia spp.)'',
     weights = [(Redness, 0.8), (EdgeDensity, 0.6), (Variance, 0.4)],
     description = ''Detected characteristic reddish-orange fungal pustules causing high localized spectral variance.'',
     recommendations = [''Apply triazole fungicide'', ''Reduce overhead irrigation'', ''Monitor spread to adjacent rows''],
     baseLossModifier = 1.2 \<rparr>"

definition LateBlight :: DiseaseProfile where
  "LateBlight = \<lparr>
     name = ''Late Blight (Phytophthora infestans)'',
     weights = [(NecroticDensity, 0.9), (Greenness, - 0.8), (Variance, 0.7)],
     description = ''Widespread necrotic lesions with high variance. Typical of aggressive oomycete infection.'',
     recommendations = [''Immediate copper-based spray'', ''Remove heavily infected plant matter'', ''Check for stem cankers''],
     baseLossModifier = 2.0 \<rparr>"

definition PowderyMildew :: DiseaseProfile where
  "PowderyMildew = \<lparr>
     name = ''Powdery Mildew'',
     weights = [(Variance, 0.8), (EdgeDensity, 0.5), (Greenness, - 0.2)],
     description = ''Surface-level white mycelial growth creating high textural complexity and edge counts.'',
     recommendations = [''Increase airflow in canopy'', ''Apply sulfur-based powders'', ''Check relative humidity levels''],
     baseLossModifier = 0.8 \<rparr>"

definition Chlorosis :: DiseaseProfile where
  "Chlorosis = \<lparr>
     name = ''Nitrogen/Iron Chlorosis'',
     weights = [(Greenness, - 0.9), (ZonalIntegrity, - 0.7), (NecroticDensity, - 0.5)],
     description = ''Broad-spectrum chlorophyll loss starting from leaf margins. Pattern suggests physiological deficiency.'',
     recommendations = [''Check soil pH (likely >7.0)'', ''Apply chelated iron/nitrogen'', ''Review drainage efficiency''],
     baseLossModifier = 0.6 \<rparr>"

definition BacterialLeafSpot :: DiseaseProfile where
  "BacterialLeafSpot = \<lparr>
     name = ''Bacterial Leaf Spot'',
     weights = [(EdgeDensity, 0.9), (NecroticDensity, 0.5), (Variance, 0.5)],
     description = ''Small, angular necrotic spots with sharp boundaries (high edge density).'',
     recommendations = [''Avoid handling wet foliage'', ''Apply fixed copper bactericide'', ''Sanitize equipment between sectors''],
     baseLossModifier = 1.1 \<rparr>"

definition DISEASE_PROFILES :: "DiseaseProfile list" where
  "DISEASE_PROFILES = [LeafRust, LateBlight, PowderyMildew, Chlorosis, BacterialLeafSpot]"

section \<open>The analysis object\<close>

text \<open>
  The interface \<open>YieldAnalysis\<close> is erased when the program runs: an analysis is then an
  object that holds a field or lacks it, and the object that comes out of \<open>JSON.parse\<close>
  may lack any of them. A field is \<open>None\<close> when the object has no such property. The
  local inference fills every field.
\<close>

record YieldAnalysis =
  expectedLoss :: "real option"
  confidenceScore :: "real option"
  riskLevel :: "string option"
  recommendations :: "string list option"
  diseaseDetected :: "string option"
  diseaseDescription :: "string option"
  similarityScore :: "real option"
  symptomlessStressDetected :: "bool option"
  stressProbability :: "real option"
  treatmentUrgency :: "string option"
  detailedMetrics :: "DetailedMetrics option"

text \<open>The object literal \<open>{}\<close>.\<close>

definition emptyObject :: YieldAnalysis where
  "emptyObject = \<lparr>
     expectedLoss = None, confidenceScore = None, riskLevel = None,
     recommendations = None, diseaseDetected = None, diseaseDescription = None,
     similarityScore = None, symptomlessStressDetected = None,
     stressProbability = None, treatmentUrgency = None, detailedMetrics = None \<rparr>"

section \<open>runLocalInference\<close>

text \<open>The inner loop over the entries of one profile's weights.\<close>

fun weightLoop ::
  "LocalVisualFeatures \<Rightarrow> (FeatureKey \<times> real) list \<Rightarrow> real \<times> real \<Rightarrow> real \<times> real" where
  "weightLoop v [] (score, weightCount) = (score, weightCount)"
| "weightLoop v ((key, weight) # rest) (score, weightCount) =
     (let featVal = feature v key
      in weightLoop v rest
           (score + (if weight > 0 then featVal * weight else (1 - featVal) * \<bar>weight\<bar>),
            weightCount + \<bar>weight\<bar>))"

text \<open>
  \<open>finalScore = score / weightCount\<close>. Every profile of the knowledge base has a
  positive \<open>weightCount\<close>.
\<close>

definition finalScore :: "LocalVisualFeatures \<Rightarrow> DiseaseProfile \<Rightarrow> real" where
  "finalScore v profile =
     (case weightLoop v (weights profile) (0, 0) of
        (score, weightCount) \<Rightarrow> score / weightCount)"

text \<open>
  The outer loop keeps the first profile whose score is strictly above every score
  before it; it starts from no profile and \<open>maxScore = -1\<close>.
\<close>

fun profileLoop ::
  "LocalVisualFeatures \<Rightarrow> DiseaseProfile list \<Rightarrow> DiseaseProfile option \<times> real
   \<Rightarrow> DiseaseProfile option \<times> real" where
  "profileLoop v [] (bestProfile, maxScore) = (bestProfile, maxScore)"
| "profileLoop v (profile # rest) (bestProfile, maxScore) =
     (if finalScore v profile > maxScore
      then profileLoop v rest (Some profile, finalScore v profile)
      else profileLoop v rest (bestProfile, maxScore))"

definition sMod :: "StressSensitivity \<Rightarrow> real" where
  "sMod sensitivity =
     (if sensitivity = Aggressive then 1.4 else if sensitivity = High then 1.2 else 1.0)"

definition stressHeuristic :: "LocalVisualFeatures \<Rightarrow> StressSensitivity \<Rightarrow> real" where
  "stressHeuristic v sensitivity =
     ((1 - greenness v) * 0.4 + necroticDensity v * 0.4 + (1 - zonalIntegrity v) * 0.2)
       * sMod sensitivity"

definition isSymptomless :: "LocalVisualFeatures \<Rightarrow> StressSensitivity \<Rightarrow> bool" where
  "isSymptomless v sensitivity \<longleftrightarrow>
     stressHeuristic v sensitivity > 0.25 \<and> necroticDensity v < 0.1 \<and> edgeDensity v < 0.2"

text \<open>\<open>matchedDisease\<close>: the best profile, kept only when its score is above 0.45.\<close>

definition matchedDisease :: "LocalVisualFeatures \<Rightarrow> DiseaseProfile option" where
  "matchedDisease v =
     (case profileLoop v DISEASE_PROFILES (None, - 1) of
        (bestProfile, maxScore) \<Rightarrow> if maxScore > 0.45 then bestProfile else None)"

text \<open>
  The body of \<open>runLocalInference\<close> once the feature vector \<open>visual\<close> is known. The crop
  type is an argument of the source function that its body never reads.
\<close>

definition localInference :: "LocalVisualFeatures \<Rightarrow> StressSensitivity \<Rightarrow> YieldAnalysis" where
  "localInference v sensitivity =
     (case profileLoop v DISEASE_PROFILES (None, - 1) of (bestProfile, maxScore) \<Rightarrow>
      let stress = stressHeuristic v sensitivity;
          symptomless = isSymptomless v sensitivity;
          confidence = min 0.92 (0.5 + maxScore * 0.4);
          matched = matchedDisease v
      in \<lparr>
        expectedLoss = Some (of_int (Math_round (stress * 35 *
          (case matched of Some p \<Rightarrow> baseLossModifier p | None \<Rightarrow> 1)))),
        confidenceScore = Some confidence,
        riskLevel = Some (if stress > 0.5 then ''High''
                          else if stress > 0.2 then ''Medium'' else ''Low''),
        recommendations = Some (case matched of
            Some p \<Rightarrow> DiseaseProfile.recommendations p
          | None \<Rightarrow>
              if symptomless
              then [''Apply micronutrient foliar spray'', ''Verify soil moisture'', ''Conduct sap test'']
              else [''Isolate sector'', ''Apply organic fungicide'', ''Monitor spread'']),
        diseaseDetected = Some (case matched of
            Some p \<Rightarrow> name p
          | None \<Rightarrow> if symptomless then ''Physiological Stress'' else ''Unknown Pathogen''),
        diseaseDescription = Some (case matched of
            Some p \<Rightarrow>
              ''Local Diagnostic Engine Match: '' @ description p
                @ '' (Match Confidence: '' @ showInt (Math_round (maxScore * 100)) @ ''%)''
          | None \<Rightarrow>
              ''Heuristic Analysis: Zonal integrity at ''
                @ showInt (Math_round (zonalIntegrity v * 100)) @ ''%. ''
                @ (if symptomless then ''Detected spectral shifts indicating latent stress.''
                   else ''Detected atypical morphological lesions.'')),
        similarityScore = Some maxScore,
        symptomlessStressDetected = Some symptomless,
        stressProbability = Some (of_int (Math_round (stress * 100))),
        treatmentUrgency = Some (if stress > 0.4 then ''Immediate''
                                 else if stress > 0.15 then ''Within 48h'' else ''Monitoring''),
        detailedMetrics = Some \<lparr>
          leafCoverage = of_int (Math_round (necroticDensity v * 160)),
          spreadVelocity = (if edgeDensity v > 0.35 then ''Aggressive''
                            else if edgeDensity v > 0.15 then ''Moderate'' else ''Slow''),
          climateRiskFactor = 0.5 \<rparr> \<rparr>)"

text \<open>
  The factor \<open>matchedDisease ? matchedDisease.baseLossModifier : 1\<close> of the expected loss.
\<close>

definition lossModifier :: "LocalVisualFeatures \<Rightarrow> real" where
  "lossModifier v = (case matchedDisease v of Some p \<Rightarrow> baseLossModifier p | None \<Rightarrow> 1)"

text \<open>The feature vector used when no image is supplied.\<close>

definition noImageFeatures :: LocalVisualFeatures where
  "noImageFeatures = \<lparr> greenness = 0.8, variance = 0.1, necroticDensity = 0.05,
     redness = 0.02, edgeDensity = 0.1, zonalIntegrity = 0.9 \<rparr>"

section \<open>extractVisualFeatures\<close>

text \<open>
  What the browser makes of the image string: the image never loads (the source sets
  no \<open>onerror\<close> handler, so the promise stays pending), the canvas gives no 2d
  context, or the image is drawn on the 128 by 128 canvas and \<open>getImageData\<close> returns
  its bytes, four (red, green, blue, alpha) for each pixel, row after row.
\<close>

datatype image_load = NeverLoads | NoContext | ImageData "nat list"

text \<open>A promise has a value, is rejected, or never settles.\<close>

datatype 'a promise = Fulfilled 'a | Rejected | Pending

record counts =
  green :: nat
  dark :: nat
  red :: nat
  totalVar :: nat
  centerGreen :: nat
  edgeGreen :: nat

definition size_px :: nat where
  "size_px = 128"

definition pixelCount :: nat where
  "pixelCount = size_px * size_px"

definition centerLimit :: real where
  "centerLimit = real size_px * 0.25"

definition centerMax :: real where
  "centerMax = real size_px * 0.75"

text \<open>The body of the first loop, for the pixel number \<open>pixelIdx\<close> with channels r, g, b.\<close>

definition pixelStep :: "nat \<Rightarrow> nat \<Rightarrow> nat \<Rightarrow> nat \<Rightarrow> counts \<Rightarrow> counts" where
  "pixelStep pixelIdx r g b c =
     (let x = pixelIdx mod size_px;
          y = pixelIdx div size_px;
          isCenter = (real x > centerLimit \<and> real x < centerMax
                      \<and> real y > centerLimit \<and> real y < centerMax);
          isGreen = (real g > real r * 1.1 \<and> real g > real b * 1.1);
          c1 = (if isGreen
                then (if isCenter
                      then c\<lparr>green := green c + 1, centerGreen := centerGreen c + 1\<rparr>
                      else c\<lparr>green := green c + 1, edgeGreen := edgeGreen c + 1\<rparr>)
                else c);
          c2 = (if real r > real g * 1.3 \<and> real r > real b * 1.2
                then c1\<lparr>red := red c1 + 1\<rparr> else c1);
          lum = 0.299 * real r + 0.587 * real g + 0.114 * real b;
          c3 = (if lum < 70 then c2\<lparr>dark := dark c2 + 1\<rparr> else c2)
      in c3\<lparr>totalVar := totalVar c3 + nat \<bar>int r - int g\<bar> + nat \<bar>int g - int b\<bar>\<rparr>)"

text \<open>
  The first loop, \<open>for (i = 0; i < pixels.length; i += 4)\<close>. The byte array of an
  \<open>ImageData\<close> holds four bytes for each pixel, so the loop takes them four at a time.
\<close>

fun pixelLoop :: "nat \<Rightarrow> nat list \<Rightarrow> counts \<Rightarrow> counts" where
  "pixelLoop pixelIdx (r # g # b # a # rest) c =
     pixelLoop (Suc pixelIdx) rest (pixelStep pixelIdx r g b c)"
| "pixelLoop pixelIdx rest c = c"

text \<open>
  The second loop, \<open>for (i = 0; i < pixels.length - 8; i += 8)\<close>: it runs while more
  than eight bytes are left and compares the red bytes of two neighbouring pixels.
\<close>

fun edgeLoop :: "nat list \<Rightarrow> nat \<Rightarrow> nat" where
  "edgeLoop pixels edges =
     (if 8 < length pixels
      then edgeLoop (drop 8 pixels)
             (if \<bar>int (pixels ! 0) - int (pixels ! 4)\<bar> > 40 then edges + 1 else edges)
      else edges)"

declare edgeLoop.simps [simp del]

definition zeroCounts :: counts where
  "zeroCounts = \<lparr> green = 0, dark = 0, red = 0, totalVar = 0, centerGreen = 0, edgeGreen = 0 \<rparr>"

text \<open>The \<open>onload\<close> handler once the bytes are read.\<close>

definition featuresOfPixels :: "nat list \<Rightarrow> LocalVisualFeatures" where
  "featuresOfPixels pixels =
     (let c = pixelLoop 0 pixels zeroCounts;
          edges = edgeLoop pixels 0
      in \<lparr> greenness = real (green c) / real pixelCount,
           variance = min 1 (real (totalVar c) / (real pixelCount * 200)),
           necroticDensity = real (dark c) / real pixelCount,
           redness = real (red c) / real pixelCount,
           edgeDensity = min 1 (real edges / (real pixelCount * 0.4)),
           zonalIntegrity = (if edgeGreen c > 0
                             then real (centerGreen c) / real (edgeGreen c) else 1) \<rparr>)"

definition noContextFeatures :: LocalVisualFeatures where
  "noContextFeatures = \<lparr> greenness = 0.5, variance = 0.1, necroticDensity = 0,
     redness = 0.1, edgeDensity = 0.1, zonalIntegrity = 0.8 \<rparr>"

fun extractVisualFeatures :: "image_load \<Rightarrow> LocalVisualFeatures promise" where
  "extractVisualFeatures NeverLoads = Pending"
| "extractVisualFeatures NoContext = Fulfilled noContextFeatures"
| "extractVisualFeatures (ImageData pixels) = Fulfilled (featuresOfPixels pixels)"

section \<open>analyzeCropHealth\<close>

text \<open>
  The text of the remote response, by what \<open>JSON.parse\<close> does with it: absent or
  empty (then the source parses \<open>"{}"\<close> in its place), not JSON (a \<open>SyntaxError\<close>),
  the JSON value \<open>null\<close>, or a JSON object with some of the analysis fields. The
  remote call itself may throw, or never answer.
\<close>

datatype response_text = NoText | InvalidJson | JsonNull | JsonObject YieldAnalysis

datatype remote_outcome = CallFails | NoReply | Response response_text

text \<open>
  The surroundings of one call: \<open>navigator.onLine\<close>, the remote service (a function of
  the image, the crop type and the sensitivity, from which the source builds its
  request) and the browser's image decoder.
\<close>

record world =
  onLine :: bool
  generateContent :: "string option \<Rightarrow> string \<Rightarrow> StressSensitivity \<Rightarrow> remote_outcome"
  loadImage :: "string \<Rightarrow> image_load"

definition runLocalInference ::
  "world \<Rightarrow> string option \<Rightarrow> string \<Rightarrow> StressSensitivity \<Rightarrow> YieldAnalysis promise" where
  "runLocalInference w imageData cropType sensitivity =
     (case (if truthy imageData then imageData else None) of
        Some src \<Rightarrow>
          (case extractVisualFeatures (loadImage w src) of
             Fulfilled visual \<Rightarrow> Fulfilled (localInference visual sensitivity)
           | Rejected \<Rightarrow> Rejected
           | Pending \<Rightarrow> Pending)
      | None \<Rightarrow> Fulfilled (localInference noImageFeatures sensitivity))"

text \<open>
  The value of the returned promise is a JavaScript value: \<open>None\<close> is \<open>null\<close>,
  \<open>Some a\<close> an object. \<open>API_KEY\<close> is the module constant, absent or a string.
\<close>

definition localResult ::
  "world \<Rightarrow> string option \<Rightarrow> string \<Rightarrow> StressSensitivity \<Rightarrow> YieldAnalysis option promise" where
  "localResult w imageData cropType sensitivity =
     (case runLocalInference w imageData cropType sensitivity of
        Fulfilled a \<Rightarrow> Fulfilled (Some a)
      | Rejected \<Rightarrow> Rejected
      | Pending \<Rightarrow> Pending)"

definition analyzeCropHealth ::
  "string option \<Rightarrow> world \<Rightarrow> string option \<Rightarrow> string \<Rightarrow> StressSensitivity
   \<Rightarrow> YieldAnalysis option promise" where
  "analyzeCropHealth API_KEY w imageData cropType sensitivity =
     (if \<not> onLine w \<or> \<not> truthy API_KEY
      then localResult w imageData cropType sensitivity
      else (case generateContent w imageData cropType sensitivity of
              CallFails \<Rightarrow> localResult w imageData cropType sensitivity
            | NoReply \<Rightarrow> Pending
            | Response NoText \<Rightarrow> Fulfilled (Some emptyObject)
            | Response InvalidJson \<Rightarrow> localResult w imageData cropType sensitivity
            | Response JsonNull \<Rightarrow> Fulfilled None
            | Response (JsonObject a) \<Rightarrow> Fulfilled (Some a)))"

section \<open>db.ts\<close>

record CropRecord =
  recId :: string
  timestamp :: int
  cropType :: string
  imageUrl :: "string option"
  status :: CropStatus
  analysis :: YieldAnalysis
  feedback :: "string option"
  isPendingSync :: "bool option"
  syncAttempts :: "int option"
  lastSyncError :: "string option"

definition DEFAULT_SETTINGS :: UserSettings where
  "DEFAULT_SETTINGS = \<lparr> stressSensitivity = Standard, stressThreshold = 20,
     insuranceThreshold = 25, autoSync = True \<rparr>"

text \<open>
  The two items of \<open>localStorage\<close> and the module variable \<open>isSyncActive\<close>. An absent
  record item reads as the empty list; an absent settings item as the defaults.
\<close>

record app_state =
  records :: "CropRecord list"
  settingsItem :: "UserSettings option"
  isSyncActive :: bool

definition getPendingRecords :: "CropRecord list \<Rightarrow> CropRecord list" where
  "getPendingRecords rs = filter (\<lambda>r. isPendingSync r = Some True) rs"

text \<open>
  \<open>updateRecord(id, updatedData)\<close> replaces every record \<open>r\<close> with that id by
  \<open>{...r, ...updatedData}\<close>; the spread of \<open>updatedData\<close> over \<open>r\<close> is the function
  \<open>upd\<close>.
\<close>

definition updateRecord ::
  "string \<Rightarrow> (CropRecord \<Rightarrow> CropRecord) \<Rightarrow> CropRecord list \<Rightarrow> CropRecord list" where
  "updateRecord i upd rs = map (\<lambda>r. if recId r = i then upd r else r) rs"

definition getSettings :: "UserSettings option \<Rightarrow> UserSettings" where
  "getSettings item = (case item of Some s \<Rightarrow> s | None \<Rightarrow> DEFAULT_SETTINGS)"

section \<open>syncOfflineRecords\<close>

definition MAX_SYNC_ATTEMPTS :: int where
  "MAX_SYNC_ATTEMPTS = 3"

record SyncProgress =
  current :: nat
  total :: nat
  progressStatus :: string
  currentCrop :: "string option"

text \<open>
  What a pass does that an observer can see: a call of the progress callback, and a call
  of \<open>analyzeCropHealth\<close> for a record.
\<close>

datatype event = OnProgress SyncProgress | AnalyzeCall CropRecord

text \<open>\<open>record.syncAttempts || 0\<close>.\<close>

definition attempts :: "CropRecord \<Rightarrow> int" where
  "attempts r = (case syncAttempts r of None \<Rightarrow> 0 | Some n \<Rightarrow> n)"

text \<open>\<open>x || null\<close> for a string that may be absent.\<close>

definition orNull :: "string option \<Rightarrow> string option" where
  "orNull x = (if truthy x then x else None)"

text \<open>A comparison with an absent field (\<open>undefined > x\<close>) is false.\<close>

fun gt :: "real option \<Rightarrow> real \<Rightarrow> bool" where
  "gt None y = False"
| "gt (Some x) y = (x > y)"

text \<open>The status computed from the result of the call, lines 283 to 287.\<close>

definition recomputeStatus :: "YieldAnalysis \<Rightarrow> UserSettings \<Rightarrow> CropStatus" where
  "recomputeStatus cloudResult settings =
     (if gt (expectedLoss cloudResult) (insuranceThreshold settings) then CRITICAL
      else if gt (expectedLoss cloudResult) 5 \<or> symptomlessStressDetected cloudResult = Some True
      then (if gt (expectedLoss cloudResult) 15 then DISEASED else STRESSED)
      else HEALTHY)"

definition successUpdate :: "CropRecord \<Rightarrow> YieldAnalysis \<Rightarrow> UserSettings \<Rightarrow> CropRecord \<Rightarrow> CropRecord" where
  "successUpdate rec cloudResult settings r =
     r\<lparr> analysis := cloudResult,
        status := recomputeStatus cloudResult settings,
        isPendingSync := Some False,
        syncAttempts := Some (attempts rec + 1) \<rparr>"

definition failureUpdate :: "CropRecord \<Rightarrow> CropRecord \<Rightarrow> CropRecord" where
  "failureUpdate rec r = r\<lparr> syncAttempts := Some (attempts rec + 1) \<rparr>"

text \<open>
  The loop over the list \<open>pending\<close> read at the start of the pass. \<open>w (Suc i)\<close> is the
  world at the call for \<open>pending[i]\<close>. The result is the record store, the events, and
  whether the loop came to its end: a call that never settles leaves the pass
  suspended. A \<open>null\<close> result makes the read of \<open>cloudResult.expectedLoss\<close> throw, which
  the inner \<open>catch\<close> handles like a rejected call. The progress callback is taken to
  return normally.
\<close>

fun syncLoop ::
  "string option \<Rightarrow> (nat \<Rightarrow> world) \<Rightarrow> UserSettings \<Rightarrow> bool \<Rightarrow> nat \<Rightarrow> nat
   \<Rightarrow> CropRecord list \<Rightarrow> CropRecord list \<Rightarrow> event list
   \<Rightarrow> CropRecord list \<times> event list \<times> bool" where
  "syncLoop API_KEY w settings onProgress n i [] store evs = (store, evs, True)"
| "syncLoop API_KEY w settings onProgress n i (rec # rest) store evs =
     (if attempts rec \<ge> MAX_SYNC_ATTEMPTS
      then syncLoop API_KEY w settings onProgress n (Suc i) rest store evs
      else
        let evs1 = evs
              @ (if onProgress
                 then [OnProgress \<lparr> current = i + 1, total = n,
                         progressStatus = ''syncing'', currentCrop = Some (cropType rec) \<rparr>]
                 else [])
              @ [AnalyzeCall rec]
        in (case analyzeCropHealth API_KEY (w (Suc i))
                   (orNull (imageUrl rec)) (cropType rec) (stressSensitivity settings) of
              Pending \<Rightarrow> (store, evs1, False)
            | Rejected \<Rightarrow>
                syncLoop API_KEY w settings onProgress n (Suc i) rest
                  (updateRecord (recId rec) (failureUpdate rec) store) evs1
            | Fulfilled None \<Rightarrow>
                syncLoop API_KEY w settings onProgress n (Suc i) rest
                  (updateRecord (recId rec) (failureUpdate rec) store) evs1
            | Fulfilled (Some cloudResult) \<Rightarrow>
                syncLoop API_KEY w settings onProgress n (Suc i) rest
                  (updateRecord (recId rec) (successUpdate rec cloudResult settings) store)
                  evs1))"

datatype completion = Returned | Suspended

text \<open>
  \<open>syncOfflineRecords\<close>: \<open>w 0\<close> is the world when the function is entered. The result
  is the state it leaves, the events, and whether the call returned. The \<open>finally\<close>
  block clears the flag whenever the loop is left.
\<close>

definition syncOfflineRecords ::
  "string option \<Rightarrow> (nat \<Rightarrow> world) \<Rightarrow> bool \<Rightarrow> app_state
   \<Rightarrow> app_state \<times> event list \<times> completion" where
  "syncOfflineRecords API_KEY w onProgress s =
     (if isSyncActive s \<or> \<not> onLine (w 0) \<or> \<not> truthy API_KEY then (s, [], Returned)
      else
        let pending = getPendingRecords (records s)
        in if length pending = 0 then (s\<lparr>isSyncActive := False\<rparr>, [], Returned)
           else
             let settings = getSettings (settingsItem s)
             in (case syncLoop API_KEY w settings onProgress (length pending) 0 pending
                        (records s) [] of
                   (store, evs, True) \<Rightarrow>
                     (s\<lparr>records := store, isSyncActive := False\<rparr>,
                      evs @ (if onProgress
                             then [OnProgress \<lparr> current = length pending,
                                     total = length pending,
                                     progressStatus = ''completed'', currentCrop = None \<rparr>]
                             else []),
                      Returned)
                 | (store, evs, False) \<Rightarrow>
                     (s\<lparr>records := store, isSyncActive := True\<rparr>, evs, Suspended)))"

section \<open>Scenarios\<close>

text \<open>
  The store of the retry scenario: a pending record at the retry cap, a pending record
  never tried, and a record that is not pending. No settings are stored, so the
  defaults apply (sensitivity Standard, insurance threshold 25).
\<close>

definition cappedRecord :: CropRecord where
  "cappedRecord = \<lparr> recId = ''r1'', timestamp = 1, cropType = ''Tomato'', imageUrl = None,
     status = HEALTHY, analysis = localInference noImageFeatures Standard, feedback = None,
     isPendingSync = Some True, syncAttempts = Some 3, lastSyncError = None \<rparr>"

definition freshRecord :: CropRecord where
  "freshRecord = \<lparr> recId = ''r2'', timestamp = 2, cropType = ''Wheat'', imageUrl = None,
     status = DISEASED, analysis = localInference noContextFeatures High, feedback = None,
     isPendingSync = Some True, syncAttempts = Some 0, lastSyncError = None \<rparr>"

definition syncedRecord :: CropRecord where
  "syncedRecord = \<lparr> recId = ''r3'', timestamp = 3, cropType = ''Maize'', imageUrl = None,
     status = HEALTHY, analysis = localInference noImageFeatures Standard, feedback = None,
     isPendingSync = Some False, syncAttempts = Some 1, lastSyncError = None \<rparr>"

definition scenarioState :: app_state where
  "scenarioState = \<lparr> records = [cappedRecord, freshRecord, syncedRecord],
     settingsItem = None, isSyncActive = False \<rparr>"

text \<open>The feature vector of the Late Blight scenario.\<close>

definition blightFeatures :: LocalVisualFeatures where
  "blightFeatures = \<lparr> greenness = 0.1, variance = 0.6, necroticDensity = 0.7,
     redness = 0.05, edgeDensity = 0.1, zonalIntegrity = 0.3 \<rparr>"

text \<open>
  Two feature vectors that differ in necroticDensity only, 0.24 and 0.26: half the pixels
  green, half red, every sampled pair an edge.
\<close>

definition rustFeatures :: LocalVisualFeatures where
  "rustFeatures = \<lparr> greenness = 0.5, variance = 0.4, necroticDensity = 0.24,
     redness = 0.5, edgeDensity = 1, zonalIntegrity = 0.5 \<rparr>"

definition rustFeaturesMore :: LocalVisualFeatures where
  "rustFeaturesMore = rustFeatures\<lparr> necroticDensity := 0.26 \<rparr>"

text \<open>
  A 128 by 128 image, white but for five pure green pixels: the first pixel of the first
  row, outside the central square, and the pixels 33 to 36 of row 33, inside it.
\<close>

definition greenPixel :: "nat list" where
  "greenPixel = [0, 255, 0, 255]"

definition whitePixel :: "nat list" where
  "whitePixel = [255, 255, 255, 255]"

fun whiteRun :: "nat \<Rightarrow> nat list" where
  "whiteRun 0 = []"
| "whiteRun (Suc n) = whitePixel @ whiteRun n"

definition centerGreenImage :: "nat list" where
  "centerGreenImage =
     greenPixel @ whiteRun 4256
       @ greenPixel @ greenPixel @ greenPixel @ greenPixel @ whiteRun 12123"

text \<open>A world that is online and whose remote call throws.\<close>

definition failingWorld :: world where
  "failingWorld = \<lparr> onLine = True, generateContent = (\<lambda>img crop sens. CallFails),
     loadImage = (\<lambda>src. NoContext) \<rparr>"

text \<open>A world whose remote call answers with a full analysis of expected loss 10.\<close>

definition moderateAnalysis :: YieldAnalysis where
  "moderateAnalysis = \<lparr>
     expectedLoss = Some 10, confidenceScore = Some 0.9, riskLevel = Some ''Low'',
     recommendations = Some [''Monitor spread''], diseaseDetected = Some ''Early Blight'',
     diseaseDescription = Some ''Few small lesions.'', similarityScore = Some 0.7,
     symptomlessStressDetected = Some False, stressProbability = Some 12,
     treatmentUrgency = Some ''Monitoring'',
     detailedMetrics = Some \<lparr> leafCoverage = 4, spreadVelocity = ''Slow'',
       climateRiskFactor = 0.3 \<rparr> \<rparr>"

definition answeringWorld :: world where
  "answeringWorld = \<lparr> onLine = True,
     generateContent = (\<lambda>img crop sens. Response (JsonObject moderateAnalysis)),
     loadImage = (\<lambda>src. NoContext) \<rparr>"

text \<open>A world whose remote call answers with no text.\<close>

definition emptyReplyWorld :: world where
  "emptyReplyWorld = \<lparr> onLine = True, generateContent = (\<lambda>img crop sens. Response NoText),
     loadImage = (\<lambda>src. NoContext) \<rparr>"

text \<open>A world whose remote call answers with an object that has one field only.\<close>

definition partialObject :: YieldAnalysis where
  "partialObject = emptyObject\<lparr> expectedLoss := Some 40 \<rparr>"

definition partialReplyWorld :: world where
  "partialReplyWorld = \<lparr> onLine = True,
     generateContent = (\<lambda>img crop sens. Response (JsonObject partialObject)),
     loadImage = (\<lambda>src. NoContext) \<rparr>"

text \<open>
  The three-tier status rule in the words of the specification, with 15 as the bound of
  the middle tier, for an analysis with the given loss and symptomless-stress flag.
\<close>

definition claimedStatus :: "real \<Rightarrow> bool \<Rightarrow> real \<Rightarrow> CropStatus" where
  "claimedStatus loss symptomless threshold =
     (if loss > threshold then CRITICAL
      else if loss > 15 \<or> symptomless
      then (if loss > 15 then DISEASED else STRESSED)
      else HEALTHY)"

section \<open>The local inference on the two fixed vectors\<close>

lemmas profile_defs = DISEASE_PROFILES_def LeafRust_def LateBlight_def PowderyMildew_def
  Chlorosis_def BacterialLeafSpot_def

lemma blight_scores:
  "finalScore blightFeatures LeafRust = 17 / 90"
  "finalScore blightFeatures LateBlight = 59 / 80"
  "finalScore blightFeatures PowderyMildew = 71 / 150"
  "finalScore blightFeatures Chlorosis = 29 / 42"
  "finalScore blightFeatures BacterialLeafSpot = 37 / 95"
  by (simp_all add: finalScore_def blightFeatures_def LeafRust_def LateBlight_def
      PowderyMildew_def Chlorosis_def BacterialLeafSpot_def)

lemma blight_profileLoop:
  "profileLoop blightFeatures DISEASE_PROFILES (None, - 1) = (Some LateBlight, 59 / 80)"
  by (simp add: DISEASE_PROFILES_def blight_scores)

lemma blight_matched: "matchedDisease blightFeatures = Some LateBlight"
  by (simp add: matchedDisease_def blight_profileLoop)

lemma blight_stress: "stressHeuristic blightFeatures Standard = 39 / 50"
  by (simp add: stressHeuristic_def sMod_def blightFeatures_def)

lemma LateBlight_modifier: "baseLossModifier LateBlight = 2"
  by (simp add: LateBlight_def)

text \<open>
  C6. On the vector greenness 0.1, necroticDensity 0.7, variance 0.6, redness 0.05,
  edgeDensity 0.1, zonalIntegrity 0.3 with sensitivity Standard, Late Blight is the
  matched profile: its score is above 0.45 and above the scores of the four other
  profiles. The stress heuristic is 0.78, the expected loss is 55, the risk level is
  High and the treatment urgency is Immediate.
\<close>

theorem late_blight_scenario:
  "blightFeatures = \<lparr> greenness = 0.1, variance = 0.6, necroticDensity = 0.7,
       redness = 0.05, edgeDensity = 0.1, zonalIntegrity = 0.3 \<rparr>
   \<and> matchedDisease blightFeatures = Some LateBlight
   \<and> similarityScore (localInference blightFeatures Standard)
       = Some (finalScore blightFeatures LateBlight)
   \<and> finalScore blightFeatures LateBlight > 0.45
   \<and> finalScore blightFeatures LeafRust < finalScore blightFeatures LateBlight
   \<and> finalScore blightFeatures PowderyMildew < finalScore blightFeatures LateBlight
   \<and> finalScore blightFeatures Chlorosis < finalScore blightFeatures LateBlight
   \<and> finalScore blightFeatures BacterialLeafSpot < finalScore blightFeatures LateBlight
   \<and> stressHeuristic blightFeatures Standard = 0.78
   \<and> expectedLoss (localInference blightFeatures Standard) = Some 55
   \<and> riskLevel (localInference blightFeatures Standard) = Some ''High''
   \<and> treatmentUrgency (localInference blightFeatures Standard) = Some ''Immediate''"
proof -
  have fields:
    "similarityScore (localInference blightFeatures Standard) = Some (59 / 80)"
    "expectedLoss (localInference blightFeatures Standard) = Some 55"
    "riskLevel (localInference blightFeatures Standard) = Some ''High''"
    "treatmentUrgency (localInference blightFeatures Standard) = Some ''Immediate''"
    by (simp_all add: localInference_def Let_def blight_profileLoop blight_matched
        blight_stress LateBlight_modifier Math_round_def)
  show ?thesis
    by (simp add: fields blight_scores blight_matched blight_stress) (simp add: blightFeatures_def)
qed

text \<open>
  C7. With no image and sensitivity Standard the inference runs on the default vector:
  no profile is matched, every profile's score is below 0.45, the risk level is Low and
  no symptomless stress is reported.
\<close>

theorem no_image_baseline:
  "matchedDisease noImageFeatures = None
   \<and> list_all (\<lambda>p. finalScore noImageFeatures p < 0.45) DISEASE_PROFILES
   \<and> (\<exists>a. runLocalInference w None crop Standard = Fulfilled a
          \<and> diseaseDetected a = Some ''Unknown Pathogen''
          \<and> riskLevel a = Some ''Low''
          \<and> symptomlessStressDetected a = Some False)"
  by (simp add: Let_def runLocalInference_def localInference_def matchedDisease_def
      finalScore_def profile_defs stressHeuristic_def sMod_def isSymptomless_def
      noImageFeatures_def)

section \<open>The expected loss as necroticDensity grows\<close>

lemma profile_scores:
  "finalScore v LeafRust = (redness v * 0.8 + edgeDensity v * 0.6 + variance v * 0.4) / 1.8"
  "finalScore v LateBlight
     = (necroticDensity v * 0.9 + (1 - greenness v) * 0.8 + variance v * 0.7) / 2.4"
  "finalScore v PowderyMildew
     = (variance v * 0.8 + edgeDensity v * 0.5 + (1 - greenness v) * 0.2) / 1.5"
  "finalScore v Chlorosis
     = ((1 - greenness v) * 0.9 + (1 - zonalIntegrity v) * 0.7 + (1 - necroticDensity v) * 0.5) / 2.1"
  "finalScore v BacterialLeafSpot
     = (edgeDensity v * 0.9 + necroticDensity v * 0.5 + variance v * 0.5) / 1.9"
  by (simp_all add: finalScore_def LeafRust_def LateBlight_def PowderyMildew_def Chlorosis_def
      BacterialLeafSpot_def)

lemma profile_modifiers:
  "baseLossModifier LeafRust = 1.2" "baseLossModifier LateBlight = 2"
  "baseLossModifier PowderyMildew = 0.8" "baseLossModifier Chlorosis = 0.6"
  "baseLossModifier BacterialLeafSpot = 1.1"
  by (simp_all add: LeafRust_def LateBlight_def PowderyMildew_def Chlorosis_def
      BacterialLeafSpot_def)

lemma matchedDisease_cases:
  "matchedDisease v =
     (if finalScore v BacterialLeafSpot > 0.45
         \<and> finalScore v BacterialLeafSpot > finalScore v LeafRust
         \<and> finalScore v BacterialLeafSpot > finalScore v LateBlight
         \<and> finalScore v BacterialLeafSpot > finalScore v PowderyMildew
         \<and> finalScore v BacterialLeafSpot > finalScore v Chlorosis
      then Some BacterialLeafSpot
      else if finalScore v Chlorosis > 0.45
         \<and> finalScore v Chlorosis > finalScore v LeafRust
         \<and> finalScore v Chlorosis > finalScore v LateBlight
         \<and> finalScore v Chlorosis > finalScore v PowderyMildew
      then Some Chlorosis
      else if finalScore v PowderyMildew > 0.45
         \<and> finalScore v PowderyMildew > finalScore v LeafRust
         \<and> finalScore v PowderyMildew > finalScore v LateBlight
      then Some PowderyMildew
      else if finalScore v LateBlight > 0.45
         \<and> finalScore v LateBlight > finalScore v LeafRust
      then Some LateBlight
      else if finalScore v LeafRust > 0.45 then Some LeafRust
      else None)"
proof -
  define a where "a = finalScore v LeafRust"
  define b where "b = finalScore v LateBlight"
  define c where "c = finalScore v PowderyMildew"
  define d where "d = finalScore v Chlorosis"
  define e where "e = finalScore v BacterialLeafSpot"
  note folds = a_def [symmetric] b_def [symmetric] c_def [symmetric] d_def [symmetric]
    e_def [symmetric]
  show ?thesis
    unfolding matchedDisease_def DISEASE_PROFILES_def
    by (simp add: folds)
qed

lemma lossModifier_cases:
  "lossModifier v =
     (if finalScore v BacterialLeafSpot > 0.45
         \<and> finalScore v BacterialLeafSpot > finalScore v LeafRust
         \<and> finalScore v BacterialLeafSpot > finalScore v LateBlight
         \<and> finalScore v BacterialLeafSpot > finalScore v PowderyMildew
         \<and> finalScore v BacterialLeafSpot > finalScore v Chlorosis
      then 1.1
      else if finalScore v Chlorosis > 0.45
         \<and> finalScore v Chlorosis > finalScore v LeafRust
         \<and> finalScore v Chlorosis > finalScore v LateBlight
         \<and> finalScore v Chlorosis > finalScore v PowderyMildew
      then 0.6
      else if finalScore v PowderyMildew > 0.45
         \<and> finalScore v PowderyMildew > finalScore v LeafRust
         \<and> finalScore v PowderyMildew > finalScore v LateBlight
      then 0.8
      else if finalScore v LateBlight > 0.45
         \<and> finalScore v LateBlight > finalScore v LeafRust
      then 2
      else if finalScore v LeafRust > 0.45 then 1.2
      else 1)"
  unfolding lossModifier_def matchedDisease_cases by (simp add: profile_modifiers)


lemma modifier_mono_abstract:
  fixes a b b' c d d' e e' :: real
  assumes "b \<le> b'" "d' \<le> d" "e \<le> e'" "e' - e \<le> b' - b"
    and "\<not> ((\<not> (e > 0.45 \<and> e > a \<and> e > b \<and> e > c \<and> e > d)
            \<and> \<not> (d > 0.45 \<and> d > a \<and> d > b \<and> d > c)
            \<and> \<not> (c > 0.45 \<and> c > a \<and> c > b)
            \<and> \<not> (b > 0.45 \<and> b > a) \<and> a > 0.45)
          \<and> (e' > 0.45 \<and> e' > a \<and> e' > b' \<and> e' > c \<and> e' > d'))"
  shows "(if e > 0.45 \<and> e > a \<and> e > b \<and> e > c \<and> e > d then 1.1
          else if d > 0.45 \<and> d > a \<and> d > b \<and> d > c then 0.6
          else if c > 0.45 \<and> c > a \<and> c > b then 0.8
          else if b > 0.45 \<and> b > a then 2
          else if a > 0.45 then 1.2 else (1::real))
       \<le> (if e' > 0.45 \<and> e' > a \<and> e' > b' \<and> e' > c \<and> e' > d' then 1.1
          else if d' > 0.45 \<and> d' > a \<and> d' > b' \<and> d' > c then 0.6
          else if c > 0.45 \<and> c > a \<and> c > b' then 0.8
          else if b' > 0.45 \<and> b' > a then 2
          else if a > 0.45 then 1.2 else 1)"
  using assms by argo

lemma profiles_differ:
  "LateBlight \<noteq> LeafRust"
  "LeafRust \<noteq> BacterialLeafSpot" "LeafRust \<noteq> Chlorosis" "LeafRust \<noteq> PowderyMildew"
  "LeafRust \<noteq> LateBlight" "BacterialLeafSpot \<noteq> LeafRust" "Chlorosis \<noteq> BacterialLeafSpot"
  "PowderyMildew \<noteq> BacterialLeafSpot" "LateBlight \<noteq> BacterialLeafSpot"
  by (simp_all add: LeafRust_def LateBlight_def PowderyMildew_def Chlorosis_def
      BacterialLeafSpot_def)

lemma matched_LeafRust:
  "matchedDisease v = Some LeafRust \<longleftrightarrow>
     \<not> (finalScore v BacterialLeafSpot > 0.45
         \<and> finalScore v BacterialLeafSpot > finalScore v LeafRust
         \<and> finalScore v BacterialLeafSpot > finalScore v LateBlight
         \<and> finalScore v BacterialLeafSpot > finalScore v PowderyMildew
         \<and> finalScore v BacterialLeafSpot > finalScore v Chlorosis)
     \<and> \<not> (finalScore v Chlorosis > 0.45
         \<and> finalScore v Chlorosis > finalScore v LeafRust
         \<and> finalScore v Chlorosis > finalScore v LateBlight
         \<and> finalScore v Chlorosis > finalScore v PowderyMildew)
     \<and> \<not> (finalScore v PowderyMildew > 0.45
         \<and> finalScore v PowderyMildew > finalScore v LeafRust
         \<and> finalScore v PowderyMildew > finalScore v LateBlight)
     \<and> \<not> (finalScore v LateBlight > 0.45
         \<and> finalScore v LateBlight > finalScore v LeafRust)
     \<and> finalScore v LeafRust > 0.45"
  unfolding matchedDisease_cases using profiles_differ by (simp split: if_splits)

lemma matched_BacterialLeafSpot:
  "matchedDisease v = Some BacterialLeafSpot \<longleftrightarrow>
     finalScore v BacterialLeafSpot > 0.45
     \<and> finalScore v BacterialLeafSpot > finalScore v LeafRust
     \<and> finalScore v BacterialLeafSpot > finalScore v LateBlight
     \<and> finalScore v BacterialLeafSpot > finalScore v PowderyMildew
     \<and> finalScore v BacterialLeafSpot > finalScore v Chlorosis"
  unfolding matchedDisease_cases using profiles_differ by (simp split: if_splits)

lemma lossModifier_mono:
  assumes "necroticDensity v \<le> n'"
    and "\<not> (matchedDisease v = Some LeafRust
          \<and> matchedDisease (v\<lparr>necroticDensity := n'\<rparr>) = Some BacterialLeafSpot)"
  shows "lossModifier v \<le> lossModifier (v\<lparr>necroticDensity := n'\<rparr>)"
proof -
  let ?v' = "v\<lparr>necroticDensity := n'\<rparr>"
  have same: "finalScore ?v' LeafRust = finalScore v LeafRust"
    "finalScore ?v' PowderyMildew = finalScore v PowderyMildew"
    by (simp_all add: profile_scores)
  have b: "finalScore v LateBlight \<le> finalScore ?v' LateBlight"
    using assms(1) by (simp add: profile_scores)
  have d: "finalScore ?v' Chlorosis \<le> finalScore v Chlorosis"
    using assms(1) by (simp add: profile_scores)
  have e: "finalScore v BacterialLeafSpot \<le> finalScore ?v' BacterialLeafSpot"
    using assms(1) by (simp add: profile_scores)
  have eb: "finalScore ?v' BacterialLeafSpot - finalScore v BacterialLeafSpot
      \<le> finalScore ?v' LateBlight - finalScore v LateBlight"
    using assms(1) by (simp add: profile_scores field_simps)
  have ex: "\<not> ((\<not> (finalScore v BacterialLeafSpot > 0.45
         \<and> finalScore v BacterialLeafSpot > finalScore v LeafRust
         \<and> finalScore v BacterialLeafSpot > finalScore v LateBlight
         \<and> finalScore v BacterialLeafSpot > finalScore v PowderyMildew
         \<and> finalScore v BacterialLeafSpot > finalScore v Chlorosis)
     \<and> \<not> (finalScore v Chlorosis > 0.45
         \<and> finalScore v Chlorosis > finalScore v LeafRust
         \<and> finalScore v Chlorosis > finalScore v LateBlight
         \<and> finalScore v Chlorosis > finalScore v PowderyMildew)
     \<and> \<not> (finalScore v PowderyMildew > 0.45
         \<and> finalScore v PowderyMildew > finalScore v LeafRust
         \<and> finalScore v PowderyMildew > finalScore v LateBlight)
     \<and> \<not> (finalScore v LateBlight > 0.45
         \<and> finalScore v LateBlight > finalScore v LeafRust)
     \<and> finalScore v LeafRust > 0.45)
    \<and> (finalScore ?v' BacterialLeafSpot > 0.45
     \<and> finalScore ?v' BacterialLeafSpot > finalScore v LeafRust
     \<and> finalScore ?v' BacterialLeafSpot > finalScore ?v' LateBlight
     \<and> finalScore ?v' BacterialLeafSpot > finalScore v PowderyMildew
     \<and> finalScore ?v' BacterialLeafSpot > finalScore ?v' Chlorosis))"
    using assms(2) unfolding matched_LeafRust matched_BacterialLeafSpot same by blast
  show ?thesis
    unfolding lossModifier_cases same
    by (rule modifier_mono_abstract [OF b d e eb ex])
qed

lemma lossModifier_lower: "lossModifier v \<ge> 0.6"
  unfolding lossModifier_cases by simp

lemma expectedLoss_localInference:
  "expectedLoss (localInference v sensitivity)
   = Some (of_int (Math_round (stressHeuristic v sensitivity * 35 * lossModifier v)))"
  by (simp add: localInference_def Let_def lossModifier_def split: prod.splits)

lemma sMod_positive: "sMod sensitivity > 0"
  by (simp add: sMod_def)

lemma rust_scores:
  "finalScore rustFeatures LeafRust = 29 / 45"
  "finalScore rustFeatures LateBlight = 56 / 150"
  "finalScore rustFeatures PowderyMildew = 46 / 75"
  "finalScore rustFeatures Chlorosis = 59 / 105"
  "finalScore rustFeatures BacterialLeafSpot = 61 / 95"
  "finalScore rustFeaturesMore LeafRust = 29 / 45"
  "finalScore rustFeaturesMore LateBlight = 457 / 1200"
  "finalScore rustFeaturesMore PowderyMildew = 46 / 75"
  "finalScore rustFeaturesMore Chlorosis = 39 / 70"
  "finalScore rustFeaturesMore BacterialLeafSpot = 123 / 190"
  by (simp_all add: profile_scores rustFeatures_def rustFeaturesMore_def)

lemma rust_matched:
  "matchedDisease rustFeatures = Some LeafRust"
  "matchedDisease rustFeaturesMore = Some BacterialLeafSpot"
  by (simp_all add: matchedDisease_cases rust_scores)

text \<open>
  C5, as claimed, fails. The two vectors differ in necroticDensity only, 0.24 against
  0.26. At 0.24 Leaf Rust is matched (multiplier 1.2) and the expected loss is
  round(0.396 * 35 * 1.2) = 17; at 0.26 Bacterial Leaf Spot takes over (multiplier 1.1)
  and the expected loss is round(0.404 * 35 * 1.1) = 16.
\<close>

theorem expected_loss_drops_with_more_necrosis:
  "rustFeaturesMore = rustFeatures\<lparr> necroticDensity := 0.26 \<rparr>
   \<and> necroticDensity rustFeatures = 0.24
   \<and> matchedDisease rustFeatures = Some LeafRust
   \<and> matchedDisease rustFeaturesMore = Some BacterialLeafSpot
   \<and> expectedLoss (localInference rustFeatures Standard) = Some 17
   \<and> expectedLoss (localInference rustFeaturesMore Standard) = Some 16"
proof -
  have m: "lossModifier rustFeatures = 1.2" "lossModifier rustFeaturesMore = 1.1"
    by (simp_all add: lossModifier_def rust_matched profile_modifiers)
  have st: "stressHeuristic rustFeatures Standard = 0.396"
    "stressHeuristic rustFeaturesMore Standard = 0.404"
    by (simp_all add: stressHeuristic_def sMod_def rustFeatures_def rustFeaturesMore_def)
  have loss: "expectedLoss (localInference rustFeatures Standard) = Some 17"
    "expectedLoss (localInference rustFeaturesMore Standard) = Some 16"
    by (simp_all add: expectedLoss_localInference m st Math_round_def)
  have d: "rustFeaturesMore = rustFeatures\<lparr> necroticDensity := 0.26 \<rparr>"
    by (simp add: rustFeaturesMore_def)
  have n: "necroticDensity rustFeatures = 0.24" by (simp add: rustFeatures_def)
  show ?thesis
    by (intro conjI) (rule d n loss rust_matched)+
qed

text \<open>
  C5, amended. For two vectors that differ in necroticDensity only, with greenness and
  zonalIntegrity at most 1 and necroticDensity at least 0 (so that the stress heuristic
  is not negative), the analysis with the larger necroticDensity never has the smaller
  expected loss, at every sensitivity, unless the match changes from Leaf Rust at the
  smaller value to Bacterial Leaf Spot at the larger. Every other change of the matched
  profile leaves the multiplier the same or raises it.
\<close>

theorem expected_loss_monotone_in_necrosis:
  assumes "necroticDensity v \<le> n'"
    and "greenness v \<le> 1" and "zonalIntegrity v \<le> 1" and "0 \<le> necroticDensity v"
    and "\<not> (matchedDisease v = Some LeafRust
          \<and> matchedDisease (v\<lparr>necroticDensity := n'\<rparr>) = Some BacterialLeafSpot)"
  shows "\<exists>l l'. expectedLoss (localInference v sensitivity) = Some l
          \<and> expectedLoss (localInference (v\<lparr>necroticDensity := n'\<rparr>) sensitivity) = Some l'
          \<and> l \<le> l'"
proof -
  let ?v' = "v\<lparr>necroticDensity := n'\<rparr>"
  have base: "0 \<le> (1 - greenness v) * 0.4 + necroticDensity v * 0.4 + (1 - zonalIntegrity v) * 0.2"
    using assms(2,3,4) by simp
  have s0: "0 \<le> stressHeuristic v sensitivity"
    unfolding stressHeuristic_def using base sMod_positive [of sensitivity]
    by (intro mult_nonneg_nonneg) simp_all
  have s1: "stressHeuristic v sensitivity \<le> stressHeuristic ?v' sensitivity"
    unfolding stressHeuristic_def using assms(1) sMod_positive [of sensitivity]
    by (intro mult_right_mono) simp_all
  have m0: "0 \<le> lossModifier v" using lossModifier_lower [of v] by simp
  have m1: "lossModifier v \<le> lossModifier ?v'" by (rule lossModifier_mono [OF assms(1,5)])
  have "stressHeuristic v sensitivity * lossModifier v
      \<le> stressHeuristic ?v' sensitivity * lossModifier ?v'"
    using s0 s1 m0 m1 by (intro mult_mono) simp_all
  then have "stressHeuristic v sensitivity * 35 * lossModifier v
      \<le> stressHeuristic ?v' sensitivity * 35 * lossModifier ?v'"
    by simp
  then have "Math_round (stressHeuristic v sensitivity * 35 * lossModifier v)
      \<le> Math_round (stressHeuristic ?v' sensitivity * 35 * lossModifier ?v')"
    unfolding Math_round_def by (intro floor_mono) simp
  then show ?thesis
    by (simp add: expectedLoss_localInference)
qed

text \<open>The Late Blight vector, with necroticDensity raised from 0.7 to 0.9.\<close>

theorem expected_loss_monotone_in_necrosis_witness:
  "expectedLoss (localInference blightFeatures Standard) = Some 55
   \<and> (\<exists>l'. expectedLoss (localInference (blightFeatures\<lparr>necroticDensity := 0.9\<rparr>) Standard)
           = Some l' \<and> 55 \<le> l')"
proof -
  have h1: "necroticDensity blightFeatures \<le> 0.9" by (simp add: blightFeatures_def)
  have h2: "greenness blightFeatures \<le> 1" by (simp add: blightFeatures_def)
  have h3: "zonalIntegrity blightFeatures \<le> 1" by (simp add: blightFeatures_def)
  have h4: "0 \<le> necroticDensity blightFeatures" by (simp add: blightFeatures_def)
  have h5: "\<not> (matchedDisease blightFeatures = Some LeafRust
      \<and> matchedDisease (blightFeatures\<lparr>necroticDensity := 0.9\<rparr>) = Some BacterialLeafSpot)"
    by (simp add: blight_matched profiles_differ)
  have l: "expectedLoss (localInference blightFeatures Standard) = Some 55"
    by (simp add: expectedLoss_localInference lossModifier_def blight_matched blight_stress
        LateBlight_modifier Math_round_def)
  show ?thesis
    using expected_loss_monotone_in_necrosis [OF h1 h2 h3 h4 h5, of Standard] l by auto
qed

section \<open>The feature extractor on an image\<close>

lemma length_whiteRun: "length (whiteRun n) = 4 * n"
  by (induction n) (simp_all add: whitePixel_def)

lemma bytes_whiteRun: "list_all (\<lambda>b. b \<le> 255) (whiteRun n)"
  by (induction n) (simp_all add: whitePixel_def)

lemma pixelStep_white: "pixelStep i 255 255 255 c = c"
  by (simp add: pixelStep_def Let_def)

lemma pixelLoop_whiteRun: "pixelLoop i (whiteRun n @ rest) c = pixelLoop (i + n) rest c"
proof (induction n arbitrary: i)
  case 0
  show ?case by simp
next
  case (Suc n)
  show ?case by (simp add: whitePixel_def pixelStep_white Suc.IH)
qed

lemma pixelLoop_whiteRun_end: "pixelLoop i (whiteRun n) c = c"
  using pixelLoop_whiteRun [of i n "[]" c] by simp

lemma pixelStep_green_edge:
  "pixelStep 0 0 255 0 c
   = c\<lparr>green := green c + 1, edgeGreen := edgeGreen c + 1, totalVar := totalVar c + 510\<rparr>"
  by (simp add: pixelStep_def Let_def size_px_def centerLimit_def centerMax_def)

lemma pixelStep_green_center:
  "i \<in> {4257, 4258, 4259, 4260} \<Longrightarrow> pixelStep i 0 255 0 c
   = c\<lparr>green := green c + 1, centerGreen := centerGreen c + 1, totalVar := totalVar c + 510\<rparr>"
  by (auto simp: pixelStep_def Let_def size_px_def centerLimit_def centerMax_def)

lemma centerGreen_counts:
  "pixelLoop 0 centerGreenImage zeroCounts
   = \<lparr> green = 5, dark = 0, red = 0, totalVar = 2550, centerGreen = 4, edgeGreen = 1 \<rparr>"
proof -
  have "pixelLoop 0 centerGreenImage zeroCounts
      = pixelLoop 1 (whiteRun 4256 @ greenPixel @ greenPixel @ greenPixel @ greenPixel
          @ whiteRun 12123) (pixelStep 0 0 255 0 zeroCounts)"
    by (simp add: centerGreenImage_def greenPixel_def)
  also have "\<dots> = pixelLoop 4257 (greenPixel @ greenPixel @ greenPixel @ greenPixel
      @ whiteRun 12123) (pixelStep 0 0 255 0 zeroCounts)"
    by (simp add: pixelLoop_whiteRun)
  also have "\<dots> = pixelLoop 4261 (whiteRun 12123)
      (pixelStep 4260 0 255 0 (pixelStep 4259 0 255 0 (pixelStep 4258 0 255 0
        (pixelStep 4257 0 255 0 (pixelStep 0 0 255 0 zeroCounts)))))"
    by (simp add: greenPixel_def eval_nat_numeral)
  finally show ?thesis
    by (simp add: pixelLoop_whiteRun_end pixelStep_green_edge pixelStep_green_center
        zeroCounts_def)
qed

lemma centerGreen_fields:
  "greenness (featuresOfPixels centerGreenImage) = 5 / 16384"
  "necroticDensity (featuresOfPixels centerGreenImage) = 0"
  "zonalIntegrity (featuresOfPixels centerGreenImage) = 4"
  by (simp_all add: featuresOfPixels_def Let_def centerGreen_counts pixelCount_def size_px_def)

text \<open>
  C3. The claim is that every component of the extracted vector lies between 0 and 1.
  On the image above, of the right length and with every byte at most 255, four green
  pixels lie in the central square and one outside, so \<open>zonalIntegrity\<close> is 4: the ratio
  is not capped, unlike variance and edgeDensity. With it the stress heuristic is
  negative and so is the expected loss of the local inference.
\<close>

theorem zonal_integrity_above_one:
  "length centerGreenImage = 4 * pixelCount
   \<and> list_all (\<lambda>b. b \<le> 255) centerGreenImage
   \<and> extractVisualFeatures (ImageData centerGreenImage)
       = Fulfilled (featuresOfPixels centerGreenImage)
   \<and> zonalIntegrity (featuresOfPixels centerGreenImage) = 4
   \<and> stressHeuristic (featuresOfPixels centerGreenImage) Standard < 0
   \<and> (\<exists>l. expectedLoss (localInference (featuresOfPixels centerGreenImage) Standard) = Some l
          \<and> l < 0)"
proof -
  let ?v = "featuresOfPixels centerGreenImage"
  have len: "length centerGreenImage = 4 * pixelCount"
    by (simp add: centerGreenImage_def length_whiteRun greenPixel_def pixelCount_def size_px_def)
  have bytes: "list_all (\<lambda>b. b \<le> 255) centerGreenImage"
    by (simp add: centerGreenImage_def bytes_whiteRun greenPixel_def)
  have st: "stressHeuristic ?v Standard = - (8197 / 40960)"
    by (simp add: stressHeuristic_def sMod_def centerGreen_fields)
  have "stressHeuristic ?v Standard * 35 * lossModifier ?v \<le> - (8197 / 40960) * 35 * 0.6"
    unfolding st using lossModifier_lower [of ?v] by simp
  then have "Math_round (stressHeuristic ?v Standard * 35 * lossModifier ?v)
      \<le> Math_round (- (8197 / 40960) * 35 * 0.6)"
    unfolding Math_round_def by (intro floor_mono) simp
  also have "\<dots> < 0" by (simp add: Math_round_def)
  finally have neg: "Math_round (stressHeuristic ?v Standard * 35 * lossModifier ?v) < 0" .
  show ?thesis
    using len bytes neg by (simp add: centerGreen_fields st expectedLoss_localInference)
qed

text \<open>The ratio on that image is above 1.\<close>

theorem zonal_integrity_above_one_witness:
  "zonalIntegrity (featuresOfPixels centerGreenImage) > 1"
  using zonal_integrity_above_one by simp

section \<open>The record store under a sync pass\<close>

lemma updateRecord_length: "length (updateRecord i upd rs) = length rs"
  by (simp add: updateRecord_def)

lemma updateRecord_nth:
  "k < length rs \<Longrightarrow>
   updateRecord i upd rs ! k = (if recId (rs ! k) = i then upd (rs ! k) else rs ! k)"
  by (simp add: updateRecord_def)

lemma recId_successUpdate: "recId (successUpdate rec a st r) = recId r"
  by (simp add: successUpdate_def)

lemma recId_failureUpdate: "recId (failureUpdate rec r) = recId r"
  by (simp add: failureUpdate_def)

lemma distinct_recId_eq:
  assumes "distinct (map recId rs)" "p \<in> set rs" "k < length rs" "recId p = recId (rs ! k)"
  shows "p = rs ! k"
proof -
  have "inj_on recId (set rs)" using assms(1) by (simp add: distinct_map)
  moreover have "rs ! k \<in> set rs" using assms(3) by simp
  ultimately show ?thesis using assms(2,4) by (auto dest: inj_onD)
qed

text \<open>The loop keeps the number of records.\<close>

lemma syncLoop_length:
  "syncLoop K w st cb n i ps store evs = (store', evs', fin) \<Longrightarrow> length store' = length store"
proof (induction ps arbitrary: i store evs)
  case Nil
  then show ?case by simp
next
  case (Cons rec rest)
  then show ?case
    by (auto simp: Let_def updateRecord_length split: if_splits promise.splits option.splits)
qed

text \<open>
  A stored record keeps its value when no record of the pending list that is below the
  cap has its id.
\<close>

lemma syncLoop_frame:
  assumes "syncLoop K w st cb n i ps store evs = (store', evs', fin)"
    and "k < length store"
    and "\<forall>p\<in>set ps. attempts p < MAX_SYNC_ATTEMPTS \<longrightarrow> recId p \<noteq> recId (store ! k)"
  shows "store' ! k = store ! k"
  using assms
proof (induction ps arbitrary: i store evs)
  case Nil
  then show ?case by simp
next
  case (Cons rec rest)
  show ?case
  proof (cases "attempts rec \<ge> MAX_SYNC_ATTEMPTS")
    case True
    with Cons.prems have "syncLoop K w st cb n (Suc i) rest store evs = (store', evs', fin)"
      by simp
    then show ?thesis using Cons.IH Cons.prems(2,3) by simp
  next
    case False
    then have ne: "recId rec \<noteq> recId (store ! k)"
      using Cons.prems(3) by simp
    have keep: "updateRecord (recId rec) upd store ! k = store ! k" for upd
      using ne Cons.prems(2) by (simp add: updateRecord_nth)
    have rest: "\<forall>p\<in>set rest. attempts p < MAX_SYNC_ATTEMPTS \<longrightarrow>
        recId p \<noteq> recId (updateRecord (recId rec) upd store ! k)" for upd
      using Cons.prems(3) keep by simp
    have len: "k < length (updateRecord (recId rec) upd store)" for upd
      using Cons.prems(2) by (simp add: updateRecord_length)
    from Cons.prems(1) False show ?thesis
      using Cons.IH [OF _ len rest] keep
      by (auto simp: Let_def split: if_splits promise.splits option.splits)
  qed
qed

text \<open>Every call of the orchestrator is for a record of the pending list below the cap.\<close>

lemma syncLoop_calls:
  assumes "syncLoop K w st cb n i ps store evs = (store', evs', fin)"
    and "AnalyzeCall r \<in> set evs'"
  shows "AnalyzeCall r \<in> set evs \<or> (r \<in> set ps \<and> attempts r < MAX_SYNC_ATTEMPTS)"
  using assms
proof (induction ps arbitrary: i store evs)
  case Nil
  then show ?case by simp
next
  case (Cons rec rest)
  show ?case
  proof (cases "attempts rec \<ge> MAX_SYNC_ATTEMPTS")
    case True
    with Cons.prems have "syncLoop K w st cb n (Suc i) rest store evs = (store', evs', fin)"
      by simp
    from Cons.IH [OF this Cons.prems(2)] show ?thesis by auto
  next
    case False
    from Cons.prems(1) False Cons.prems(2) show ?thesis
      using Cons.IH
      by (fastforce simp: Let_def split: if_splits promise.splits option.splits)
  qed
qed

lemma syncLoop_head_success:
  assumes "attempts rec < MAX_SYNC_ATTEMPTS"
    and "analyzeCropHealth K (w (Suc i)) (orNull (imageUrl rec))
           (cropType rec) (stressSensitivity st) = Fulfilled (Some a)"
    and "syncLoop K w st cb n i (rec # rest) store evs = (store', evs', fin)"
  shows "\<exists>evs1. syncLoop K w st cb n (Suc i) rest
           (updateRecord (recId rec) (successUpdate rec a st) store) evs1 = (store', evs', fin)"
  using assms by (auto simp: Let_def)

text \<open>One turn of a loop that comes to its end changes only records with the id of its record.\<close>

lemma syncLoop_head_step:
  assumes "syncLoop K w st cb n i (rec # rest) store evs = (store', evs', True)"
  shows "\<exists>store1 evs1. syncLoop K w st cb n (Suc i) rest store1 evs1 = (store', evs', True)
           \<and> length store1 = length store
           \<and> (\<forall>k<length store. recId (store1 ! k) = recId (store ! k))
           \<and> (\<forall>k<length store. recId (store ! k) \<noteq> recId rec \<longrightarrow> store1 ! k = store ! k)"
proof (cases "attempts rec \<ge> MAX_SYNC_ATTEMPTS")
  case True
  with assms have "syncLoop K w st cb n (Suc i) rest store evs = (store', evs', True)" by simp
  then show ?thesis by blast
next
  case False
  have props: "length (updateRecord (recId rec) upd store) = length store
      \<and> (\<forall>k<length store. recId (updateRecord (recId rec) upd store ! k) = recId (store ! k))
      \<and> (\<forall>k<length store. recId (store ! k) \<noteq> recId rec
            \<longrightarrow> updateRecord (recId rec) upd store ! k = store ! k)"
    if "\<And>r. recId (upd r) = recId r" for upd
    using that by (simp add: updateRecord_length updateRecord_nth)
  note pf = props [of "failureUpdate rec", OF recId_failureUpdate]
  have ps: "length (updateRecord (recId rec) (successUpdate rec a st) store) = length store
      \<and> (\<forall>k<length store.
            recId (updateRecord (recId rec) (successUpdate rec a st) store ! k)
              = recId (store ! k))
      \<and> (\<forall>k<length store. recId (store ! k) \<noteq> recId rec
            \<longrightarrow> updateRecord (recId rec) (successUpdate rec a st) store ! k = store ! k)" for a
    by (rule props) (rule recId_successUpdate)
  from assms False show ?thesis
    apply (simp add: Let_def split: promise.splits option.splits)
    using pf ps by blast+
qed

text \<open>
  When the ids of the pending list are distinct and the loop comes to its end, the
  record whose call was fulfilled with an object holds the success update of that call.
\<close>

lemma syncLoop_success_effect:
  assumes "syncLoop K w st cb n i ps store evs = (store', evs', True)"
    and "distinct (map recId ps)"
    and "j < length ps"
    and "attempts (ps ! j) < MAX_SYNC_ATTEMPTS"
    and "analyzeCropHealth K (w (Suc (i + j))) (orNull (imageUrl (ps ! j)))
           (cropType (ps ! j)) (stressSensitivity st) = Fulfilled (Some a)"
    and "k < length store"
    and "recId (store ! k) = recId (ps ! j)"
  shows "store' ! k = successUpdate (ps ! j) a st (store ! k)"
  using assms
proof (induction ps arbitrary: i j store evs)
  case Nil
  then show ?case by simp
next
  case (Cons rec rest)
  show ?case
  proof (cases j)
    case 0
    let ?store1 = "updateRecord (recId rec) (successUpdate rec a st) store"
    have a0: "attempts rec < MAX_SYNC_ATTEMPTS" using Cons.prems(4) 0 by simp
    have call: "analyzeCropHealth K (w (Suc i)) (orNull (imageUrl rec))
           (cropType rec) (stressSensitivity st) = Fulfilled (Some a)"
      using Cons.prems(5) 0 by simp
    from syncLoop_head_success [OF a0 call Cons.prems(1)] obtain evs1 where
      run: "syncLoop K w st cb n (Suc i) rest ?store1 evs1 = (store', evs', True)"
      by blast
    have at_k: "?store1 ! k = successUpdate rec a st (store ! k)"
      using Cons.prems(6,7) 0 by (simp add: updateRecord_nth)
    have "recId rec \<notin> recId ` set rest" using Cons.prems(2) by simp
    then have "\<forall>p\<in>set rest. recId p \<noteq> recId rec" by (metis imageI)
    then have "\<forall>p\<in>set rest. attempts p < MAX_SYNC_ATTEMPTS
        \<longrightarrow> recId p \<noteq> recId (?store1 ! k)"
      using Cons.prems(7) 0 at_k by (simp add: recId_successUpdate)
    moreover have "k < length ?store1" using Cons.prems(6) by (simp add: updateRecord_length)
    ultimately have "store' ! k = ?store1 ! k"
      using syncLoop_frame [OF run] by blast
    with at_k 0 show ?thesis by simp
  next
    case (Suc j')
    from syncLoop_head_step [OF Cons.prems(1)] obtain store1 evs1 where
      run: "syncLoop K w st cb n (Suc i) rest store1 evs1 = (store', evs', True)"
      and len: "length store1 = length store"
      and ids: "\<forall>k<length store. recId (store1 ! k) = recId (store ! k)"
      and keep: "\<forall>k<length store. recId (store ! k) \<noteq> recId rec \<longrightarrow> store1 ! k = store ! k"
      by blast
    have ne: "recId (store ! k) \<noteq> recId rec"
    proof -
      have "rest ! j' \<in> set rest" using Cons.prems(3) Suc by simp
      moreover have "recId rec \<notin> recId ` set rest" using Cons.prems(2) by simp
      ultimately have "recId (rest ! j') \<noteq> recId rec" by (metis imageI)
      then show ?thesis using Cons.prems(7) Suc by simp
    qed
    have same: "store1 ! k = store ! k" using keep ne Cons.prems(6) by simp
    have "store' ! k = successUpdate (rest ! j') a st (store1 ! k)"
    proof (rule Cons.IH [OF run])
      show "distinct (map recId rest)" using Cons.prems(2) by simp
      show "j' < length rest" using Cons.prems(3) Suc by simp
      show "attempts (rest ! j') < MAX_SYNC_ATTEMPTS" using Cons.prems(4) Suc by simp
      show "analyzeCropHealth K (w (Suc (Suc i + j'))) (orNull (imageUrl (rest ! j')))
           (cropType (rest ! j')) (stressSensitivity st) = Fulfilled (Some a)"
        using Cons.prems(5) Suc by simp
      show "k < length store1" using len Cons.prems(6) by simp
      show "recId (store1 ! k) = recId (rest ! j')" using same Cons.prems(7) Suc by simp
    qed
    with same Suc show ?thesis by simp
  qed
qed

lemma pending_frame_condition:
  assumes "distinct (map recId rs)" "k < length rs"
    and "\<not> (isPendingSync (rs ! k) = Some True \<and> attempts (rs ! k) < MAX_SYNC_ATTEMPTS)"
  shows "\<forall>p\<in>set (getPendingRecords rs).
           attempts p < MAX_SYNC_ATTEMPTS \<longrightarrow> recId p \<noteq> recId (rs ! k)"
proof (intro ballI impI notI)
  fix p assume p: "p \<in> set (getPendingRecords rs)" "attempts p < MAX_SYNC_ATTEMPTS"
    "recId p = recId (rs ! k)"
  then have "p \<in> set rs" "isPendingSync p = Some True" by (auto simp: getPendingRecords_def)
  moreover have "p = rs ! k"
    using distinct_recId_eq [OF assms(1) \<open>p \<in> set rs\<close> assms(2) p(3)] .
  ultimately show False using assms(3) p(2) by simp
qed

text \<open>
  The pass as a whole: with distinct ids, a record that is not pending, or is at the
  cap, keeps its place and its value, however the pass ends.
\<close>

lemma sync_pass_frame:
  assumes "distinct (map recId (records s))" "k < length (records s)"
    and "\<not> (isPendingSync (records s ! k) = Some True
          \<and> attempts (records s ! k) < MAX_SYNC_ATTEMPTS)"
    and "syncOfflineRecords K w cb s = (s', evs, c)"
  shows "length (records s') = length (records s) \<and> records s' ! k = records s ! k"
proof -
  obtain store evs0 fin where
    loop: "syncLoop K w (getSettings (settingsItem s)) cb (length (getPendingRecords (records s))) 0
        (getPendingRecords (records s)) (records s) [] = (store, evs0, fin)"
    by (metis prod_cases3)
  have "length store = length (records s)" using syncLoop_length [OF loop] .
  moreover have "store ! k = records s ! k"
    using syncLoop_frame [OF loop assms(2) pending_frame_condition [OF assms(1,2,3)]] .
  ultimately show ?thesis
    using assms(4) loop
    by (cases fin) (auto simp: syncOfflineRecords_def Let_def split: if_splits)
qed

lemma sync_pass_length:
  assumes "syncOfflineRecords K w cb s = (s', evs, c)"
  shows "length (records s') = length (records s)"
proof -
  obtain store evs0 fin where
    loop: "syncLoop K w (getSettings (settingsItem s)) cb (length (getPendingRecords (records s))) 0
        (getPendingRecords (records s)) (records s) [] = (store, evs0, fin)"
    by (metis prod_cases3)
  have "length store = length (records s)" using syncLoop_length [OF loop] .
  then show ?thesis
    using assms loop
    by (cases fin) (auto simp: syncOfflineRecords_def Let_def split: if_splits)
qed

lemma sync_pass_calls:
  assumes "syncOfflineRecords K w cb s = (s', evs, c)"
    and "AnalyzeCall r \<in> set evs"
  shows "r \<in> set (getPendingRecords (records s)) \<and> attempts r < MAX_SYNC_ATTEMPTS"
proof -
  obtain store evs0 fin where
    loop: "syncLoop K w (getSettings (settingsItem s)) cb (length (getPendingRecords (records s))) 0
        (getPendingRecords (records s)) (records s) [] = (store, evs0, fin)"
    by (metis prod_cases3)
  have "AnalyzeCall r \<in> set evs0"
    using assms loop
    by (cases fin) (auto simp: syncOfflineRecords_def Let_def split: if_splits)
  from syncLoop_calls [OF loop this] show ?thesis by simp
qed

text \<open>A pass that is let in and returns has run the loop to its end.\<close>

lemma sync_pass_returned:
  assumes "syncOfflineRecords K w cb s = (s', evs, Returned)"
    and "\<not> isSyncActive s" "onLine (w 0)" "truthy K"
    and "getPendingRecords (records s) \<noteq> []"
  shows "\<exists>evs0. syncLoop K w (getSettings (settingsItem s)) cb
           (length (getPendingRecords (records s))) 0
           (getPendingRecords (records s)) (records s) [] = (records s', evs0, True)"
proof -
  obtain store evs0 fin where
    loop: "syncLoop K w (getSettings (settingsItem s)) cb (length (getPendingRecords (records s))) 0
        (getPendingRecords (records s)) (records s) [] = (store, evs0, fin)"
    by (metis prod_cases3)
  show ?thesis
    using assms loop
    by (cases fin) (auto simp: syncOfflineRecords_def Let_def split: if_splits)
qed

section \<open>The pass on the scenario store\<close>

lemma no_image_loss:
  "expectedLoss (localInference noImageFeatures Standard) = Some 4"
  "symptomlessStressDetected (localInference noImageFeatures Standard) = Some False"
  by (simp_all add: Let_def localInference_def matchedDisease_def finalScore_def profile_defs
      stressHeuristic_def sMod_def isSymptomless_def noImageFeatures_def Math_round_def)

lemma scenario_facts:
  "records scenarioState = [cappedRecord, freshRecord, syncedRecord]"
  "\<not> isSyncActive scenarioState"
  "getSettings (settingsItem scenarioState) = DEFAULT_SETTINGS"
  "stressSensitivity DEFAULT_SETTINGS = Standard"
  "insuranceThreshold DEFAULT_SETTINGS = 25"
  "getPendingRecords [cappedRecord, freshRecord, syncedRecord] = [cappedRecord, freshRecord]"
  "attempts cappedRecord = 3" "attempts freshRecord = 0"
  "recId cappedRecord = ''r1''" "recId freshRecord = ''r2''" "recId syncedRecord = ''r3''"
  "orNull (imageUrl freshRecord) = None"
  "isPendingSync cappedRecord = Some True" "isPendingSync freshRecord = Some True"
  "isPendingSync syncedRecord = Some False"
  by (simp_all add: scenarioState_def getSettings_def DEFAULT_SETTINGS_def getPendingRecords_def
      attempts_def orNull_def cappedRecord_def freshRecord_def syncedRecord_def)

lemma failing_call:
  "analyzeCropHealth (Some ''key'') failingWorld None crop Standard
   = Fulfilled (Some (localInference noImageFeatures Standard))"
  by (simp add: analyzeCropHealth_def failingWorld_def localResult_def runLocalInference_def)

lemma answering_call:
  "analyzeCropHealth (Some ''key'') answeringWorld None crop Standard
   = Fulfilled (Some moderateAnalysis)"
  by (simp add: analyzeCropHealth_def answeringWorld_def)

lemma failing_run:
  "syncOfflineRecords (Some ''key'') (\<lambda>i. failingWorld) False scenarioState
   = (scenarioState\<lparr> records := [cappedRecord,
         freshRecord\<lparr> analysis := localInference noImageFeatures Standard, status := HEALTHY,
           isPendingSync := Some False, syncAttempts := Some 1 \<rparr>,
         syncedRecord] \<rparr>,
      [AnalyzeCall freshRecord], Returned)"
proof -
  have w: "onLine failingWorld" by (simp add: failingWorld_def)
  have st: "recomputeStatus (localInference noImageFeatures Standard) DEFAULT_SETTINGS = HEALTHY"
    by (simp add: recomputeStatus_def no_image_loss scenario_facts)
  show ?thesis
    by (simp add: syncOfflineRecords_def scenario_facts w MAX_SYNC_ATTEMPTS_def failing_call
        updateRecord_def successUpdate_def st Let_def)
qed

lemma answering_run:
  "syncOfflineRecords (Some ''key'') (\<lambda>i. answeringWorld) False scenarioState
   = (scenarioState\<lparr> records := [cappedRecord,
         freshRecord\<lparr> analysis := moderateAnalysis, status := STRESSED,
           isPendingSync := Some False, syncAttempts := Some 1 \<rparr>,
         syncedRecord] \<rparr>,
      [AnalyzeCall freshRecord], Returned)"
proof -
  have w: "onLine answeringWorld" by (simp add: answeringWorld_def)
  have st: "recomputeStatus moderateAnalysis DEFAULT_SETTINGS = STRESSED"
    by (simp add: recomputeStatus_def moderateAnalysis_def scenario_facts)
  show ?thesis
    by (simp add: syncOfflineRecords_def scenario_facts w MAX_SYNC_ATTEMPTS_def answering_call
        updateRecord_def successUpdate_def st Let_def)
qed

lemma scenario_distinct: "distinct (map recId (records scenarioState))"
  by (simp add: scenario_facts)

section \<open>The retry cap, the guard and the frame of a pass\<close>

text \<open>
  C8. A pending record whose attempt counter is at or above the cap of 3 is never passed
  to \<open>analyzeCropHealth\<close>, for every world (connectivity and remote service at each
  call), every credential and however the pass ends; and in a store with distinct ids it
  keeps its place and every field.
\<close>

theorem capped_record_skipped:
  assumes "k < length (records s)"
    and "isPendingSync (records s ! k) = Some True"
    and "attempts (records s ! k) \<ge> MAX_SYNC_ATTEMPTS"
    and "syncOfflineRecords API_KEY w onProgress s = (s', evs, c)"
  shows "AnalyzeCall (records s ! k) \<notin> set evs
       \<and> length (records s') = length (records s)
       \<and> (distinct (map recId (records s)) \<longrightarrow> records s' ! k = records s ! k)"
proof -
  have skip: "\<not> (isPendingSync (records s ! k) = Some True
      \<and> attempts (records s ! k) < MAX_SYNC_ATTEMPTS)"
    using assms(3) by simp
  have "AnalyzeCall (records s ! k) \<notin> set evs"
    using sync_pass_calls [OF assms(4)] assms(3) by fastforce
  moreover have "length (records s') = length (records s)"
    by (rule sync_pass_length [OF assms(4)])
  moreover have "records s' ! k = records s ! k" if "distinct (map recId (records s))"
    using sync_pass_frame [OF that assms(1) skip assms(4)] by simp
  ultimately show ?thesis by simp
qed

text \<open>The capped record of the scenario store, in a pass whose remote call fails.\<close>

theorem capped_record_skipped_witness:
  "AnalyzeCall cappedRecord
     \<notin> set (fst (snd (syncOfflineRecords (Some ''key'') (\<lambda>i. failingWorld) True scenarioState)))
   \<and> records (fst (syncOfflineRecords (Some ''key'') (\<lambda>i. failingWorld) True scenarioState)) ! 0
     = cappedRecord"
proof -
  have h0: "distinct (map recId (records scenarioState))" by (rule scenario_distinct)
  have h1: "0 < length (records scenarioState)" by (simp add: scenario_facts)
  have h2: "isPendingSync (records scenarioState ! 0) = Some True" by (simp add: scenario_facts)
  have h3: "attempts (records scenarioState ! 0) \<ge> MAX_SYNC_ATTEMPTS"
    by (simp add: scenario_facts MAX_SYNC_ATTEMPTS_def)
  have h4: "syncOfflineRecords (Some ''key'') (\<lambda>i. failingWorld) True scenarioState
      = (fst (syncOfflineRecords (Some ''key'') (\<lambda>i. failingWorld) True scenarioState),
         fst (snd (syncOfflineRecords (Some ''key'') (\<lambda>i. failingWorld) True scenarioState)),
         snd (snd (syncOfflineRecords (Some ''key'') (\<lambda>i. failingWorld) True scenarioState)))"
    by simp
  show ?thesis
    using capped_record_skipped [OF h1 h2 h3 h4] h0 by (simp add: scenario_facts)
qed

text \<open>
  C9. A call made while a pass is active, while offline, or with no credential returns
  at once: the state (records, settings, the active flag) is the one it was given and
  nothing is called.
\<close>

theorem sync_guard_noop:
  "isSyncActive s \<or> \<not> onLine (w 0) \<or> \<not> truthy API_KEY \<Longrightarrow>
   syncOfflineRecords API_KEY w onProgress s = (s, [], Returned)"
  by (simp add: syncOfflineRecords_def)

text \<open>The four ways into the guard: active, offline, no key, empty key.\<close>

theorem sync_guard_noop_witness:
  "syncOfflineRecords (Some ''key'') (\<lambda>i. failingWorld) True (scenarioState\<lparr>isSyncActive := True\<rparr>)
     = (scenarioState\<lparr>isSyncActive := True\<rparr>, [], Returned)
   \<and> syncOfflineRecords (Some ''key'') (\<lambda>i. failingWorld\<lparr>onLine := False\<rparr>) True scenarioState
     = (scenarioState, [], Returned)
   \<and> syncOfflineRecords None (\<lambda>i. failingWorld) True scenarioState
     = (scenarioState, [], Returned)
   \<and> syncOfflineRecords (Some '''') (\<lambda>i. failingWorld) True scenarioState
     = (scenarioState, [], Returned)"
proof -
  have a: "isSyncActive (scenarioState\<lparr>isSyncActive := True\<rparr>)
      \<or> \<not> onLine ((\<lambda>i. failingWorld) 0) \<or> \<not> truthy (Some ''key'')"
    by simp
  have b: "isSyncActive scenarioState
      \<or> \<not> onLine ((\<lambda>i. failingWorld\<lparr>onLine := False\<rparr>) 0) \<or> \<not> truthy (Some ''key'')"
    by simp
  have c: "isSyncActive scenarioState \<or> \<not> onLine ((\<lambda>i. failingWorld) 0) \<or> \<not> truthy None"
    by simp
  have d: "isSyncActive scenarioState \<or> \<not> onLine ((\<lambda>i. failingWorld) 0) \<or> \<not> truthy (Some '''')"
    by simp
  show ?thesis
    using sync_guard_noop [OF a] sync_guard_noop [OF b] sync_guard_noop [OF c]
      sync_guard_noop [OF d]
    by simp
qed

text \<open>
  C10. A record whose \<open>isPendingSync\<close> flag is false or absent is never passed to
  \<open>analyzeCropHealth\<close>, the pass keeps the number of records, and in a store with
  distinct ids the record keeps its place and its value through the pass, however the
  pass ends.
\<close>

theorem non_pending_records_unchanged:
  assumes "k < length (records s)"
    and "isPendingSync (records s ! k) \<noteq> Some True"
    and "syncOfflineRecords API_KEY w onProgress s = (s', evs, c)"
  shows "length (records s') = length (records s)
       \<and> AnalyzeCall (records s ! k) \<notin> set evs
       \<and> (distinct (map recId (records s)) \<longrightarrow> records s' ! k = records s ! k)"
proof -
  have skip: "\<not> (isPendingSync (records s ! k) = Some True
      \<and> attempts (records s ! k) < MAX_SYNC_ATTEMPTS)"
    using assms(2) by simp
  have "AnalyzeCall (records s ! k) \<notin> set evs"
    using sync_pass_calls [OF assms(3)] assms(2) by (auto simp: getPendingRecords_def)
  moreover have "length (records s') = length (records s)"
    by (rule sync_pass_length [OF assms(3)])
  moreover have "records s' ! k = records s ! k" if "distinct (map recId (records s))"
    using sync_pass_frame [OF that assms(1) skip assms(3)] by simp
  ultimately show ?thesis by simp
qed

text \<open>The record of the scenario store that is not pending.\<close>

theorem non_pending_records_unchanged_witness:
  "length (records (fst (syncOfflineRecords (Some ''key'') (\<lambda>i. answeringWorld) False scenarioState)))
     = 3
   \<and> records (fst (syncOfflineRecords (Some ''key'') (\<lambda>i. answeringWorld) False scenarioState)) ! 2
     = syncedRecord"
proof -
  have h0: "distinct (map recId (records scenarioState))" by (rule scenario_distinct)
  have h1: "2 < length (records scenarioState)" by (simp add: scenario_facts)
  have h2: "isPendingSync (records scenarioState ! 2) \<noteq> Some True" by (simp add: scenario_facts)
  have h3: "syncOfflineRecords (Some ''key'') (\<lambda>i. answeringWorld) False scenarioState
      = (fst (syncOfflineRecords (Some ''key'') (\<lambda>i. answeringWorld) False scenarioState),
         fst (snd (syncOfflineRecords (Some ''key'') (\<lambda>i. answeringWorld) False scenarioState)),
         snd (snd (syncOfflineRecords (Some ''key'') (\<lambda>i. answeringWorld) False scenarioState)))"
    by simp
  show ?thesis
    using non_pending_records_unchanged [OF h1 h2 h3] h0 by (simp add: scenario_facts)
qed

section \<open>The status after a successful call\<close>

text \<open>
  C2, as claimed, fails: the remote service answers with an expected loss of 10 and no
  symptomless stress, under the default insurance threshold of 25. The pass stores the
  status Stressed; the rule with 15 as the bound of the middle tier gives Healthy.
\<close>

theorem resync_status_claimed_rule_fails:
  "syncOfflineRecords (Some ''key'') (\<lambda>i. answeringWorld) False scenarioState
   = (scenarioState\<lparr> records := [cappedRecord,
         freshRecord\<lparr> analysis := moderateAnalysis, status := STRESSED,
           isPendingSync := Some False, syncAttempts := Some 1 \<rparr>,
         syncedRecord] \<rparr>,
      [AnalyzeCall freshRecord], Returned)
   \<and> expectedLoss moderateAnalysis = Some 10
   \<and> symptomlessStressDetected moderateAnalysis = Some False
   \<and> claimedStatus 10 False (insuranceThreshold (getSettings (settingsItem scenarioState)))
       = HEALTHY"
  by (simp add: answering_run) (simp add: scenario_facts claimedStatus_def moderateAnalysis_def)

text \<open>
  C2, amended. In a store with distinct ids, when a pass that returns has called
  \<open>analyzeCropHealth\<close> for a pending record below the cap and the call was fulfilled
  with an object of expected loss \<open>loss\<close> and symptomless-stress flag \<open>symptomless\<close>,
  the record holds that object, is no longer pending, has one attempt more, and its
  status is Critical if the loss exceeds the insurance threshold; otherwise, if the
  loss exceeds 5 or symptomless stress was detected, Diseased when the loss exceeds 15
  and Stressed when not; and Healthy in all other cases.
\<close>

theorem resync_status_rule:
  assumes "distinct (map recId (records s))"
    and "\<not> isSyncActive s" and "onLine (w 0)" and "truthy API_KEY"
    and "j < length (getPendingRecords (records s))"
    and "k < length (records s)"
    and "records s ! k = getPendingRecords (records s) ! j"
    and "attempts (records s ! k) < MAX_SYNC_ATTEMPTS"
    and "analyzeCropHealth API_KEY (w (Suc j)) (orNull (imageUrl (records s ! k)))
           (cropType (records s ! k)) (stressSensitivity (getSettings (settingsItem s)))
         = Fulfilled (Some a)"
    and "expectedLoss a = Some loss"
    and "symptomlessStressDetected a = Some symptomless"
    and "syncOfflineRecords API_KEY w onProgress s = (s', evs, Returned)"
  shows "records s' ! k = (records s ! k)\<lparr>
           analysis := a,
           status := (if loss > insuranceThreshold (getSettings (settingsItem s)) then CRITICAL
                      else if loss > 5 \<or> symptomless
                      then (if loss > 15 then DISEASED else STRESSED)
                      else HEALTHY),
           isPendingSync := Some False,
           syncAttempts := Some (attempts (records s ! k) + 1) \<rparr>"
proof -
  let ?ps = "getPendingRecords (records s)"
  let ?st = "getSettings (settingsItem s)"
  have ne: "?ps \<noteq> []" using assms(5) by auto
  from sync_pass_returned [OF assms(12) assms(2,3,4) ne] obtain evs0 where
    loop: "syncLoop API_KEY w ?st onProgress (length ?ps) 0 ?ps (records s) [] = (records s', evs0, True)"
    by blast
  have d: "distinct (map recId ?ps)"
    using assms(1) by (simp add: getPendingRecords_def distinct_map_filter)
  have "records s' ! k = successUpdate (?ps ! j) a ?st (records s ! k)"
  proof (rule syncLoop_success_effect [OF loop d assms(5)])
    show "attempts (?ps ! j) < MAX_SYNC_ATTEMPTS" using assms(7,8) by simp
    show "analyzeCropHealth API_KEY (w (Suc (0 + j))) (orNull (imageUrl (?ps ! j)))
       (cropType (?ps ! j)) (stressSensitivity ?st) = Fulfilled (Some a)"
      using assms(7,9) by simp
    show "k < length (records s)" by (rule assms(6))
    show "recId (records s ! k) = recId (?ps ! j)" using assms(7) by simp
  qed
  then show ?thesis
    using assms(7,10,11) by (simp add: successUpdate_def recomputeStatus_def)
qed

text \<open>The fresh record of the scenario store, with the answer of expected loss 10.\<close>

theorem resync_status_rule_witness:
  "records (fst (syncOfflineRecords (Some ''key'') (\<lambda>i. answeringWorld) False scenarioState)) ! 1
   = freshRecord\<lparr> analysis := moderateAnalysis, status := STRESSED,
       isPendingSync := Some False, syncAttempts := Some 1 \<rparr>"
proof -
  have h1: "distinct (map recId (records scenarioState))" by (rule scenario_distinct)
  have h2: "\<not> isSyncActive scenarioState" by (simp add: scenario_facts)
  have h3: "onLine ((\<lambda>i. answeringWorld) 0)" by (simp add: answeringWorld_def)
  have h4: "truthy (Some ''key'')" by simp
  have h5: "1 < length (getPendingRecords (records scenarioState))" by (simp add: scenario_facts)
  have h6: "1 < length (records scenarioState)" by (simp add: scenario_facts)
  have h7: "records scenarioState ! 1 = getPendingRecords (records scenarioState) ! 1"
    by (simp add: scenario_facts)
  have h8: "attempts (records scenarioState ! 1) < MAX_SYNC_ATTEMPTS"
    by (simp add: scenario_facts MAX_SYNC_ATTEMPTS_def)
  have h9: "analyzeCropHealth (Some ''key'') ((\<lambda>i. answeringWorld) (Suc 1))
      (orNull (imageUrl (records scenarioState ! 1))) (cropType (records scenarioState ! 1))
      (stressSensitivity (getSettings (settingsItem scenarioState))) = Fulfilled (Some moderateAnalysis)"
    by (simp add: scenario_facts answering_call)
  have h10: "expectedLoss moderateAnalysis = Some 10" by (simp add: moderateAnalysis_def)
  have h11: "symptomlessStressDetected moderateAnalysis = Some False"
    by (simp add: moderateAnalysis_def)
  have h12: "syncOfflineRecords (Some ''key'') (\<lambda>i. answeringWorld) False scenarioState
      = (fst (syncOfflineRecords (Some ''key'') (\<lambda>i. answeringWorld) False scenarioState),
         [AnalyzeCall freshRecord], Returned)"
    by (simp add: answering_run)
  show ?thesis
    using resync_status_rule [OF h1 h2 h3 h4 h5 h6 h7 h8 h9 h10 h11 h12]
    by (simp add: scenario_facts)
qed

section \<open>A remote call that fails during a pass\<close>

text \<open>
  C1. The claim is that a pending record with no attempts, in a pass whose remote call
  fails, ends with one attempt, still pending and with its analysis untouched. On the
  scenario store the pass ends otherwise: \<open>analyzeCropHealth\<close> answers the failed call
  with the local inference, so the pass takes the call for a success, replaces the
  analysis and the status, and clears the pending flag. The capped record is unchanged.
\<close>

theorem failed_call_clears_pending:
  "generateContent failingWorld None ''Wheat'' Standard = CallFails
   \<and> syncOfflineRecords (Some ''key'') (\<lambda>i. failingWorld) False scenarioState
   = (scenarioState\<lparr> records := [cappedRecord,
         freshRecord\<lparr> analysis := localInference noImageFeatures Standard, status := HEALTHY,
           isPendingSync := Some False, syncAttempts := Some 1 \<rparr>,
         syncedRecord] \<rparr>,
      [AnalyzeCall freshRecord], Returned)"
  by (simp add: failing_run) (simp add: failingWorld_def)

text \<open>The fresh record after that pass: synced, with the local result as its analysis.\<close>

theorem failed_call_clears_pending_witness:
  "isPendingSync (records (fst (syncOfflineRecords (Some ''key'') (\<lambda>i. failingWorld) False
       scenarioState)) ! 1) = Some False
   \<and> syncAttempts (records (fst (syncOfflineRecords (Some ''key'') (\<lambda>i. failingWorld) False
       scenarioState)) ! 1) = Some 1
   \<and> analysis (records (fst (syncOfflineRecords (Some ''key'') (\<lambda>i. failingWorld) False
       scenarioState)) ! 1) = localInference noImageFeatures Standard
   \<and> records (fst (syncOfflineRecords (Some ''key'') (\<lambda>i. failingWorld) False
       scenarioState)) ! 0 = cappedRecord"
  using failed_call_clears_pending by simp

section \<open>A remote answer that lacks required fields\<close>

lemma localInference_fields:
  "expectedLoss (localInference v sensitivity) \<noteq> None"
  "recommendations (localInference v sensitivity) \<noteq> None"
  "detailedMetrics (localInference v sensitivity) \<noteq> None"
  by (simp_all add: localInference_def Let_def split: prod.splits)

lemma localResult_fields:
  assumes "localResult w imageData crop sensitivity = Fulfilled (Some a)"
  shows "expectedLoss a \<noteq> None \<and> recommendations a \<noteq> None \<and> detailedMetrics a \<noteq> None"
proof -
  from assms obtain v where "a = localInference v sensitivity"
    by (auto simp: localResult_def runLocalInference_def split: promise.splits option.splits)
  then show ?thesis by (simp add: localInference_fields)
qed

text \<open>
  C4. The claim is that an answer that violates the schema is treated as a failure and
  replaced by the local inference. An answer with no text is parsed as \<open>{}\<close> and
  returned, and an answer with one field only is returned as it is; neither is a result
  of the local inference, which fills every field.
\<close>

theorem schema_violation_accepted:
  "analyzeCropHealth (Some ''key'') emptyReplyWorld imageData crop sensitivity
     = Fulfilled (Some emptyObject)
   \<and> analyzeCropHealth (Some ''key'') partialReplyWorld imageData crop sensitivity
     = Fulfilled (Some partialObject)
   \<and> expectedLoss emptyObject = None
   \<and> recommendations partialObject = None
   \<and> detailedMetrics partialObject = None
   \<and> localResult emptyReplyWorld imageData crop sensitivity \<noteq> Fulfilled (Some emptyObject)
   \<and> localResult partialReplyWorld imageData crop sensitivity \<noteq> Fulfilled (Some partialObject)"
proof -
  have e: "expectedLoss emptyObject = None" by (simp add: emptyObject_def)
  have p: "recommendations partialObject = None" "detailedMetrics partialObject = None"
    by (simp_all add: partialObject_def emptyObject_def)
  have "localResult emptyReplyWorld imageData crop sensitivity \<noteq> Fulfilled (Some emptyObject)"
    using localResult_fields [of emptyReplyWorld imageData crop sensitivity emptyObject] e
    by blast
  moreover have "localResult partialReplyWorld imageData crop sensitivity
      \<noteq> Fulfilled (Some partialObject)"
    using localResult_fields [of partialReplyWorld imageData crop sensitivity partialObject] p
    by blast
  moreover have "analyzeCropHealth (Some ''key'') emptyReplyWorld imageData crop sensitivity
     = Fulfilled (Some emptyObject)"
    by (simp add: analyzeCropHealth_def emptyReplyWorld_def)
  moreover have "analyzeCropHealth (Some ''key'') partialReplyWorld imageData crop sensitivity
     = Fulfilled (Some partialObject)"
    by (simp add: analyzeCropHealth_def partialReplyWorld_def)
  ultimately show ?thesis using e p by simp
qed

text \<open>The call with no image, for wheat, at sensitivity Standard.\<close>

theorem schema_violation_accepted_witness:
  "analyzeCropHealth (Some ''key'') emptyReplyWorld None ''Wheat'' Standard
     = Fulfilled (Some emptyObject)
   \<and> localResult emptyReplyWorld None ''Wheat'' Standard \<noteq> Fulfilled (Some emptyObject)"
  using schema_violation_accepted [of None "''Wheat''" Standard] by simp

end
